theory Spec2Isabelle
  imports Complex_Main
begin

section \<open>JavaScript values, promises and the browser\<close>

text \<open>
  The frontend is a set of React components. Each asynchronous handler is embedded as a
  function from the state it can see (the component's \<open>useState\<close> cells and the browser)
  and the outcome of every awaited call to the state reached when the handler's promise
  settles. A JavaScript number is a binary64 double; it is modelled by its exact value, a
  rational, and arithmetic on numbers rounds as IEEE 754 does (\<open>fl\<close> below). In the
  literal datasets a decimal literal is written as the decimal itself; no theorem
  computes with those. An object is the list of its fields in insertion order, without
  repeated keys.
\<close>

datatype jsval =
    JUndefined
  | JNull
  | JBool bool
  | JNum rat
  | JStr string
  | JArr "jsval list"
  | JObj "(string \<times> jsval) list"

datatype exn = NetworkError | ApiError nat | TypeError | SyntaxError

text \<open>The settled state of a promise: \<open>await\<close> returns the value or throws the reason.\<close>

datatype 'a outcome = Resolved (the_value: 'a) | Rejected (reason: exn)

fun rejected :: "'a outcome \<Rightarrow> bool" where
  "rejected (Rejected e) = True"
| "rejected (Resolved v) = False"

subsection \<open>Doubles\<close>

text \<open>The number of binary digits of a positive integer.\<close>

fun bits :: "int \<Rightarrow> nat" where
  "bits n = (if n \<le> 0 then 0 else Suc (bits (n div 2)))"

definition pow2 :: "int \<Rightarrow> rat" where
  "pow2 e = (if 0 \<le> e then 2 ^ nat e else 1 / 2 ^ nat (- e))"

text \<open>The integer nearest to \<open>n / d\<close> for \<open>d > 0\<close>, the even one on a tie.\<close>

definition rne_div :: "int \<Rightarrow> int \<Rightarrow> int" where
  "rne_div n d =
     (let f = n div d; r = n mod d
      in if d < 2 * r \<or> (2 * r = d \<and> odd f) then f + 1 else f)"

text \<open>The binary exponent of \<open>p / q\<close> for \<open>p, q > 0\<close>: the \<open>e\<close> with \<open>2 ^ e \<le> p / q < 2 ^ (e + 1)\<close>.\<close>

definition expo :: "int \<Rightarrow> int \<Rightarrow> int" where
  "expo p q = (if q \<le> p then int (bits (p div q)) - 1 else - int (bits ((q - 1) div p)))"

text \<open>
  Rounding to binary64, round-to-nearest, ties to even: 53 significant bits, and below
  \<open>2 ^ -1022\<close> the fixed spacing \<open>2 ^ -1074\<close> of the subnormal numbers. A decimal literal
  \<open>c\<close> of the source denotes \<open>fl c\<close>, and the product of two doubles is \<open>fl\<close> of their
  exact product. Overflow to \<open>Infinity\<close> (from about \<open>1.8 * 10 ^ 308\<close>) is left out.
\<close>

definition fl :: "rat \<Rightarrow> rat" where
  "fl x =
     (if x = 0 then 0
      else (let (p, q) = quotient_of \<bar>x\<bar>;
                e = max (expo p q) (- 1022) - 52;
                m = (if 0 \<le> e then rne_div p (q * 2 ^ nat e) else rne_div (p * 2 ^ nat (- e)) q)
            in sgn x * of_int m * pow2 e))"

text \<open>Truthiness as used by \<open>!x\<close>, \<open>x || y\<close> and \<open>x ? y : z\<close>.\<close>

fun truthy :: "jsval \<Rightarrow> bool" where
  "truthy JUndefined = False"
| "truthy JNull = False"
| "truthy (JBool b) = b"
| "truthy (JNum r) = (r \<noteq> 0)"
| "truthy (JStr s) = (s \<noteq> [])"
| "truthy (JArr xs) = True"
| "truthy (JObj kvs) = True"

text \<open>
  Member access \<open>v.k\<close> for a key \<open>k\<close> that is not a built-in property: it throws a
  \<open>TypeError\<close> on \<open>null\<close> and \<open>undefined\<close>, reads an object's own field, and is
  \<open>undefined\<close> on every other value.
\<close>

fun get_prop :: "jsval \<Rightarrow> string \<Rightarrow> exn + jsval" where
  "get_prop JUndefined k = Inl TypeError"
| "get_prop JNull k = Inl TypeError"
| "get_prop (JObj kvs) k = (case map_of kvs k of None \<Rightarrow> Inr JUndefined | Some v \<Rightarrow> Inr v)"
| "get_prop v k = Inr JUndefined"

text \<open>Object spread \<open>{...a, k: v}\<close>: the fields of \<open>a\<close>, with \<open>k\<close> set to \<open>v\<close>.\<close>

fun set_field :: "(string \<times> jsval) list \<Rightarrow> string \<Rightarrow> jsval \<Rightarrow> (string \<times> jsval) list" where
  "set_field [] k v = [(k, v)]"
| "set_field ((k', v') # kvs) k v =
     (if k' = k then (k, v) # kvs else (k', v') # set_field kvs k v)"

text \<open>
  \<open>ToString\<close>, as applied by \<open>localStorage.setItem\<close> to the value it stores. The
  printing of a number is a parameter. An array prints its elements separated by commas,
  \<open>null\<close> and \<open>undefined\<close> elements as the empty string.
\<close>

fun ToString :: "(rat \<Rightarrow> string) \<Rightarrow> jsval \<Rightarrow> string"
  and join_elements :: "(rat \<Rightarrow> string) \<Rightarrow> jsval list \<Rightarrow> string" where
  "ToString num JUndefined = ''undefined''"
| "ToString num JNull = ''null''"
| "ToString num (JBool b) = (if b then ''true'' else ''false'')"
| "ToString num (JNum r) = num r"
| "ToString num (JStr s) = s"
| "ToString num (JArr vs) = join_elements num vs"
| "ToString num (JObj kvs) = ''[object Object]''"
| "join_elements num [] = []"
| "join_elements num (v # vs) =
     (if v = JUndefined \<or> v = JNull then [] else ToString num v)
     @ (if vs = [] then [] else '','' @ join_elements num vs)"

text \<open>
  A \<open>fetch\<close> response: its status and its body, \<open>None\<close> when the body is not JSON
  (\<open>response.json()\<close> then rejects with a \<open>SyntaxError\<close>). \<open>fetch\<close> itself rejects only
  when no response arrives.
\<close>

record response =
  status :: nat
  body :: "jsval option"

definition ok :: "response \<Rightarrow> bool" where
  "ok r = (200 \<le> status r \<and> status r \<le> 299)"

definition json :: "response \<Rightarrow> jsval outcome" where
  "json r = (case body r of None \<Rightarrow> Rejected SyntaxError | Some v \<Rightarrow> Resolved v)"



record request =
  http_method :: string
  url :: string
  authorization :: "string option"
  payload :: "jsval option"

text \<open>
  What leaves the browser: a \<open>fetch\<close> with its request, or a call of a method of
  \<open>apiClient\<close> (\<open>lib/api\<close>), known by its name only.
\<close>

datatype net_call = Fetch request | ApiClient string

text \<open>
  The browser: the \<open>token\<close> slot of \<open>localStorage\<close>, the current location (set by
  \<open>window.location.href = ...\<close> and by \<open>router.push\<close>), the calls issued so far and
  the \<open>alert\<close> boxes shown.
\<close>

record browser =
  token :: "string option"
  href :: string
  network :: "net_call list"
  alerts :: "string list"

definition getItem_token :: "browser \<Rightarrow> jsval" where
  "getItem_token b = (case token b of None \<Rightarrow> JNull | Some t \<Rightarrow> JStr t)"

text \<open>The template literal \<open>`Bearer ${localStorage.getItem('token')}`\<close>.\<close>

definition bearer :: "browser \<Rightarrow> string" where
  "bearer b = ''Bearer '' @ (case token b of None \<Rightarrow> ''null'' | Some t \<Rightarrow> t)"

definition issue :: "net_call \<Rightarrow> browser \<Rightarrow> browser" where
  "issue c b = b\<lparr>network := network b @ [c]\<rparr>"

text \<open>
  The API client of \<open>lib/api\<close> is outside this development. Its \<open>login\<close> and
  \<open>logout\<close>, which may touch the token slot, are parameters: from the slot before the
  call to the outcome and the slot after it. Its resource calls enter the handlers below
  by their outcome alone; what they do to the slot is outside these handlers.
\<close>

type_synonym 'a api_call = "string option \<Rightarrow> 'a outcome \<times> string option"

section \<open>Navigation: logout\<close>

text \<open>
  \<open>Navigation.handleLogout\<close>: the state is the \<open>user\<close> cell (\<open>True\<close> when a user is
  set). The result is the settled promise of the handler.
\<close>

definition handleLogout :: "jsval api_call \<Rightarrow> browser \<times> bool \<Rightarrow> exn + browser \<times> bool" where
  "handleLogout logout = (\<lambda>(b, user).
     let (r, t) = logout (token b);
         b1 = (issue (ApiClient ''logout'') b)\<lparr>token := t\<rparr>
     in case r of
          Resolved _ \<Rightarrow> Inr (b1\<lparr>token := None, href := ''/login''\<rparr>, False)
        | Rejected e \<Rightarrow> Inr (b1\<lparr>token := None, href := ''/login''\<rparr>, False))"

section \<open>Login page\<close>

record login_state =
  loading :: bool
  error :: string


section \<open>Landing page\<close>


section \<open>Dashboard page\<close>

record dashboard_state =
  activeView :: string
  dashboardStats :: jsval
  loading :: bool
  isAuthenticated :: bool

definition Dashboard_init :: dashboard_state where
  "Dashboard_init =
     \<lparr>activeView = ''overview'', dashboardStats = JNull, loading = True, isAuthenticated = False\<rparr>"

text \<open>\<open>Dashboard.fetchDashboardStats\<close>: the \<open>catch\<close> only logs to the console.\<close>

definition fetchDashboardStats ::
  "jsval outcome \<Rightarrow> browser \<times> dashboard_state \<Rightarrow> browser \<times> dashboard_state" where
  "fetchDashboardStats r = (\<lambda>(b, s).
     let s1 = s\<lparr>dashboard_state.loading := True\<rparr>;
         b1 = issue (ApiClient ''getDashboardAnalytics'') b
     in case r of
          Resolved data \<Rightarrow> (b1, s1\<lparr>dashboardStats := data, dashboard_state.loading := False\<rparr>)
        | Rejected e \<Rightarrow> (b1, s1\<lparr>dashboard_state.loading := False\<rparr>))"

text \<open>The effect run when \<open>Dashboard\<close> mounts.\<close>

definition Dashboard_useEffect ::
  "jsval outcome \<Rightarrow> browser \<times> dashboard_state \<Rightarrow> browser \<times> dashboard_state" where
  "Dashboard_useEffect r = (\<lambda>(b, s).
     if \<not> truthy (getItem_token b) then (b\<lparr>href := ''/landing''\<rparr>, s)
     else fetchDashboardStats r (b, s\<lparr>isAuthenticated := True\<rparr>))"

section \<open>Admin page and dashboard\<close>

record admin_state =
  systemStatus :: jsval
  loading :: bool

definition demo_systemStatus :: jsval where
  "demo_systemStatus = JObj
     [(''status'', JStr ''online''),
      (''version'', JStr ''1.0.0''),
      (''uptime'', JStr ''2 days, 5 hours''),
      (''database_status'', JStr ''healthy''),
      (''ml_models_status'', JStr ''loaded''),
      (''last_model_training'', JStr ''2024-01-01T00:00:00Z''),
      (''total_employees'', JNum 14999),
      (''total_predictions'', JNum 2500),
      (''system_health'', JStr ''healthy'')]"

definition AdminDashboard_init :: admin_state where
  "AdminDashboard_init = \<lparr>systemStatus = JNull, loading = False\<rparr>"

definition fetchSystemStatus :: "jsval outcome \<Rightarrow> browser \<times> admin_state \<Rightarrow> browser \<times> admin_state" where
  "fetchSystemStatus r = (\<lambda>(b, s).
     let s1 = s\<lparr>admin_state.loading := True\<rparr>;
         b1 = issue (ApiClient ''getSystemStatus'') b
     in case r of
          Resolved data \<Rightarrow> (b1, s1\<lparr>systemStatus := data, admin_state.loading := False\<rparr>)
        | Rejected e \<Rightarrow> (b1, s1\<lparr>systemStatus := demo_systemStatus, admin_state.loading := False\<rparr>))"

text \<open>
  \<open>AdminPage\<close>: its effect checks the token; \<open>AdminDashboard\<close> is rendered, and so
  mounted, only once \<open>isAuthenticated\<close> is set. The result holds the page's
  \<open>isAuthenticated\<close> cell and the state of the dashboard.
\<close>

definition AdminPage_mount ::
  "jsval outcome \<Rightarrow> browser \<Rightarrow> browser \<times> bool \<times> admin_state" where
  "AdminPage_mount r b =
     (if \<not> truthy (getItem_token b) then (b\<lparr>href := ''/landing''\<rparr>, False, AdminDashboard_init)
      else (let (b1, s1) = fetchSystemStatus r (b, AdminDashboard_init) in (b1, True, s1)))"

section \<open>Analytics dashboard\<close>

record analytics_state =
  analyticsData :: jsval
  riskDistribution :: jsval
  turnoverByDept :: jsval
  turnoverBySalary :: jsval
  satisfactionDist :: jsval
  projectAnalysis :: jsval
  clusteringAnalysis :: jsval
  loading :: bool
  activeTab :: string

definition AnalyticsDashboard_init :: analytics_state where
  "AnalyticsDashboard_init =
     \<lparr>analyticsData = JNull, riskDistribution = JNull, turnoverByDept = JArr [],
      turnoverBySalary = JArr [], satisfactionDist = JArr [], projectAnalysis = JArr [],
      clusteringAnalysis = JArr [], loading = True, activeTab = ''dashboard''\<rparr>"

text \<open>The literals of the \<open>catch\<close> block of \<open>fetchAnalyticsData\<close>.\<close>

definition demo_department_stats :: jsval where
  "demo_department_stats = JArr
     [JObj [(''department'', JStr ''sales''), (''total_employees'', JNum 4140), (''employees_left'', JNum 1012), (''turnover_rate'', JNum 0.244), (''avg_satisfaction'', JNum 0.612)],
      JObj [(''department'', JStr ''technical''), (''total_employees'', JNum 2720), (''employees_left'', JNum 512), (''turnover_rate'', JNum 0.188), (''avg_satisfaction'', JNum 0.678)],
      JObj [(''department'', JStr ''support''), (''total_employees'', JNum 2229), (''employees_left'', JNum 355), (''turnover_rate'', JNum 0.159), (''avg_satisfaction'', JNum 0.698)],
      JObj [(''department'', JStr ''IT''), (''total_employees'', JNum 1227), (''employees_left'', JNum 162), (''turnover_rate'', JNum 0.132), (''avg_satisfaction'', JNum 0.721)],
      JObj [(''department'', JStr ''product_mng''), (''total_employees'', JNum 902), (''employees_left'', JNum 198), (''turnover_rate'', JNum 0.219), (''avg_satisfaction'', JNum 0.645)],
      JObj [(''department'', JStr ''marketing''), (''total_employees'', JNum 858), (''employees_left'', JNum 183), (''turnover_rate'', JNum 0.213), (''avg_satisfaction'', JNum 0.652)],
      JObj [(''department'', JStr ''RandD''), (''total_employees'', JNum 787), (''employees_left'', JNum 89), (''turnover_rate'', JNum 0.113), (''avg_satisfaction'', JNum 0.734)],
      JObj [(''department'', JStr ''accounting''), (''total_employees'', JNum 767), (''employees_left'', JNum 134), (''turnover_rate'', JNum 0.175), (''avg_satisfaction'', JNum 0.689)],
      JObj [(''department'', JStr ''hr''), (''total_employees'', JNum 739), (''employees_left'', JNum 123), (''turnover_rate'', JNum 0.166), (''avg_satisfaction'', JNum 0.692)],
      JObj [(''department'', JStr ''management''), (''total_employees'', JNum 630), (''employees_left'', JNum 83), (''turnover_rate'', JNum 0.132), (''avg_satisfaction'', JNum 0.721)]]"

definition demo_analyticsData :: jsval where
  "demo_analyticsData = JObj
     [(''total_employees'', JNum 14999),
      (''employees_left'', JNum 3571),
      (''turnover_rate'', JNum 0.238),
      (''high_risk_employees'', JNum 1250),
      (''safe_employees'', JNum 8500),
      (''department_stats'', demo_department_stats)]"

definition demo_riskDistribution :: jsval where
  "demo_riskDistribution = JObj
     [(''low'', JNum 8500), (''medium'', JNum 3249), (''high'', JNum 2000), (''critical'', JNum 1250)]"

definition demo_turnoverByDept :: jsval where
  "demo_turnoverByDept = JArr
     [JObj [(''department'', JStr ''sales''), (''turnover_rate'', JNum 0.244), (''employee_count'', JNum 4140)],
      JObj [(''department'', JStr ''technical''), (''turnover_rate'', JNum 0.188), (''employee_count'', JNum 2720)],
      JObj [(''department'', JStr ''support''), (''turnover_rate'', JNum 0.159), (''employee_count'', JNum 2229)],
      JObj [(''department'', JStr ''IT''), (''turnover_rate'', JNum 0.132), (''employee_count'', JNum 1227)],
      JObj [(''department'', JStr ''product_mng''), (''turnover_rate'', JNum 0.219), (''employee_count'', JNum 902)],
      JObj [(''department'', JStr ''marketing''), (''turnover_rate'', JNum 0.213), (''employee_count'', JNum 858)],
      JObj [(''department'', JStr ''RandD''), (''turnover_rate'', JNum 0.113), (''employee_count'', JNum 787)],
      JObj [(''department'', JStr ''accounting''), (''turnover_rate'', JNum 0.175), (''employee_count'', JNum 767)],
      JObj [(''department'', JStr ''hr''), (''turnover_rate'', JNum 0.166), (''employee_count'', JNum 739)],
      JObj [(''department'', JStr ''management''), (''turnover_rate'', JNum 0.132), (''employee_count'', JNum 630)]]"

definition demo_turnoverBySalary :: jsval where
  "demo_turnoverBySalary = JArr
     [JObj [(''salary_level'', JStr ''low''), (''turnover_rate'', JNum 0.267), (''employee_count'', JNum 7316)],
      JObj [(''salary_level'', JStr ''medium''), (''turnover_rate'', JNum 0.198), (''employee_count'', JNum 6446)],
      JObj [(''salary_level'', JStr ''high''), (''turnover_rate'', JNum 0.123), (''employee_count'', JNum 1237)]]"

definition demo_satisfactionDist :: jsval where
  "demo_satisfactionDist = JArr
     [JObj [(''satisfaction_range'', JStr ''0.0-0.2''), (''employee_count'', JNum 1249), (''turnover_rate'', JNum 0.456)],
      JObj [(''satisfaction_range'', JStr ''0.2-0.4''), (''employee_count'', JNum 1874), (''turnover_rate'', JNum 0.389)],
      JObj [(''satisfaction_range'', JStr ''0.4-0.6''), (''employee_count'', JNum 3749), (''turnover_rate'', JNum 0.234)],
      JObj [(''satisfaction_range'', JStr ''0.6-0.8''), (''employee_count'', JNum 5624), (''turnover_rate'', JNum 0.156)],
      JObj [(''satisfaction_range'', JStr ''0.8-1.0''), (''employee_count'', JNum 2503), (''turnover_rate'', JNum 0.089)]]"

definition demo_projectAnalysis :: jsval where
  "demo_projectAnalysis = JArr
     [JObj [(''project_count'', JNum 2), (''employee_count'', JNum 3749), (''avg_satisfaction'', JNum 0.456), (''turnover_rate'', JNum 0.234)],
      JObj [(''project_count'', JNum 3), (''employee_count'', JNum 5624), (''avg_satisfaction'', JNum 0.567), (''turnover_rate'', JNum 0.189)],
      JObj [(''project_count'', JNum 4), (''employee_count'', JNum 3749), (''avg_satisfaction'', JNum 0.678), (''turnover_rate'', JNum 0.145)],
      JObj [(''project_count'', JNum 5), (''employee_count'', JNum 1874), (''avg_satisfaction'', JNum 0.789), (''turnover_rate'', JNum 0.098)],
      JObj [(''project_count'', JNum 6), (''employee_count'', JNum 3), (''avg_satisfaction'', JNum 0.890), (''turnover_rate'', JNum 0.067)]]"

definition demo_clusteringAnalysis :: jsval where
  "demo_clusteringAnalysis = JArr
     [JObj [(''cluster_id'', JNum 1), (''cluster_name'', JStr ''High Performers''), (''employee_count'', JNum 2503), (''avg_satisfaction'', JNum 0.789), (''avg_evaluation'', JNum 0.856), (''turnover_rate'', JNum 0.089)],
      JObj [(''cluster_id'', JNum 2), (''cluster_name'', JStr ''Stable Employees''), (''employee_count'', JNum 5624), (''avg_satisfaction'', JNum 0.567), (''avg_evaluation'', JNum 0.634), (''turnover_rate'', JNum 0.156)],
      JObj [(''cluster_id'', JNum 3), (''cluster_name'', JStr ''At Risk''), (''employee_count'', JNum 3749), (''avg_satisfaction'', JNum 0.456), (''avg_evaluation'', JNum 0.423), (''turnover_rate'', JNum 0.234)],
      JObj [(''cluster_id'', JNum 4), (''cluster_name'', JStr ''Critical Risk''), (''employee_count'', JNum 3123), (''avg_satisfaction'', JNum 0.234), (''avg_evaluation'', JNum 0.312), (''turnover_rate'', JNum 0.456)]]"

text \<open>
  \<open>Promise.all\<close>: resolved with the values in order when every promise resolves,
  rejected as soon as one rejects. The reason kept here is that of the first rejected
  promise of the array; the caller only logs it.
\<close>

fun Promise_all :: "'a outcome list \<Rightarrow> 'a list outcome" where
  "Promise_all [] = Resolved []"
| "Promise_all (Rejected e # rs) = Rejected e"
| "Promise_all (Resolved v # rs) =
     (case Promise_all rs of Rejected e \<Rightarrow> Rejected e | Resolved vs \<Rightarrow> Resolved (v # vs))"

text \<open>Array destructuring: a missing position is \<open>undefined\<close>.\<close>

definition item :: "jsval list \<Rightarrow> nat \<Rightarrow> jsval" where
  "item vs i = (if i < length vs then vs ! i else JUndefined)"

definition analytics_calls :: "net_call list" where
  "analytics_calls =
     [ApiClient ''getDashboardAnalytics'', ApiClient ''getRiskDistribution'',
      ApiClient ''getTurnoverByDepartment'', ApiClient ''getTurnoverBySalary'',
      ApiClient ''getSatisfactionDistribution'', ApiClient ''getProjectCountAnalysis'',
      ApiClient ''getClusteringAnalysis'']"

text \<open>The outcomes of the seven calls of \<open>fetchAnalyticsData\<close>, named as its results are.\<close>

record analytics_outcomes =
  dashboardData :: "jsval outcome"
  riskData :: "jsval outcome"
  deptData :: "jsval outcome"
  salaryData :: "jsval outcome"
  satisfactionData :: "jsval outcome"
  projectData :: "jsval outcome"
  clusteringData :: "jsval outcome"

text \<open>The array handed to \<open>Promise.all\<close>.\<close>

definition outcomes :: "analytics_outcomes \<Rightarrow> jsval outcome list" where
  "outcomes rs = [dashboardData rs, riskData rs, deptData rs, salaryData rs,
                  satisfactionData rs, projectData rs, clusteringData rs]"

text \<open>\<open>AnalyticsDashboard.fetchAnalyticsData\<close>.\<close>

definition fetchAnalyticsData ::
  "analytics_outcomes \<Rightarrow> browser \<times> analytics_state \<Rightarrow> browser \<times> analytics_state" where
  "fetchAnalyticsData rs = (\<lambda>(b, s).
     let s1 = s\<lparr>analytics_state.loading := True\<rparr>;
         b1 = b\<lparr>network := network b @ analytics_calls\<rparr>
     in case Promise_all (outcomes rs) of
          Resolved vs \<Rightarrow>
            (b1, s1\<lparr>analyticsData := item vs 0,
                     riskDistribution := item vs 1,
                     turnoverByDept := item vs 2,
                     turnoverBySalary := item vs 3,
                     satisfactionDist := item vs 4,
                     projectAnalysis := item vs 5,
                     clusteringAnalysis := item vs 6,
                     analytics_state.loading := False\<rparr>)
        | Rejected e \<Rightarrow>
            (b1, s1\<lparr>analyticsData := demo_analyticsData,
                     riskDistribution := demo_riskDistribution,
                     turnoverByDept := demo_turnoverByDept,
                     turnoverBySalary := demo_turnoverBySalary,
                     satisfactionDist := demo_satisfactionDist,
                     projectAnalysis := demo_projectAnalysis,
                     clusteringAnalysis := demo_clusteringAnalysis,
                     analytics_state.loading := False\<rparr>))"

text \<open>
  \<open>AnalyticsPage\<close> renders \<open>AnalyticsDashboard\<close> at once; the dashboard's effect calls
  \<open>fetchAnalyticsData\<close>. Neither reads the token.
\<close>

definition AnalyticsPage_mount ::
  "analytics_outcomes \<Rightarrow> browser \<Rightarrow> browser \<times> analytics_state" where
  "AnalyticsPage_mount rs b = fetchAnalyticsData rs (b, AnalyticsDashboard_init)"

section \<open>Employees dashboard\<close>

record employees_state =
  employees :: jsval
  selectedEmployee :: jsval
  employeePredictions :: jsval
  retentionStrategies :: jsval
  loading :: bool
  showAddForm :: bool
  formData :: "(string \<times> jsval) list"

text \<open>The initial value of \<open>formData\<close>, also restored after a successful creation.\<close>

definition initial_formData :: "(string \<times> jsval) list" where
  "initial_formData =
     [(''satisfaction_level'', JNum 0.5),
      (''last_evaluation'', JNum 0.5),
      (''number_project'', JNum 2),
      (''average_monthly_hours'', JNum 160),
      (''time_spend_company'', JNum 2),
      (''work_accident'', JNum 0),
      (''promotion_last_5years'', JNum 0),
      (''department'', JStr ''sales''),
      (''salary'', JStr ''low'')]"

definition EmployeesDashboard_init :: employees_state where
  "EmployeesDashboard_init =
     \<lparr>employees = JArr [], selectedEmployee = JNull, employeePredictions = JArr [],
      retentionStrategies = JArr [], loading = False, showAddForm = False,
      formData = initial_formData\<rparr>"

definition demo_employees :: jsval where
  "demo_employees = JArr
     [JObj [(''employee_id'', JStr ''EMP001''),
            (''satisfaction_level'', JNum 0.38),
            (''last_evaluation'', JNum 0.53),
            (''number_project'', JNum 2),
            (''average_monthly_hours'', JNum 157),
            (''time_spend_company'', JNum 3),
            (''work_accident'', JNum 0),
            (''promotion_last_5years'', JNum 0),
            (''department'', JStr ''sales''),
            (''salary'', JStr ''low''),
            (''left'', JNum 1),
            (''created_at'', JStr ''2024-01-01T00:00:00Z''),
            (''updated_at'', JStr ''2024-01-01T00:00:00Z'')],
      JObj [(''employee_id'', JStr ''EMP002''),
            (''satisfaction_level'', JNum 0.80),
            (''last_evaluation'', JNum 0.86),
            (''number_project'', JNum 5),
            (''average_monthly_hours'', JNum 262),
            (''time_spend_company'', JNum 6),
            (''work_accident'', JNum 0),
            (''promotion_last_5years'', JNum 0),
            (''department'', JStr ''technical''),
            (''salary'', JStr ''medium''),
            (''left'', JNum 0),
            (''created_at'', JStr ''2024-01-02T00:00:00Z''),
            (''updated_at'', JStr ''2024-01-02T00:00:00Z'')]]"

definition employees_url :: string where
  "employees_url = ''http://localhost:8000/api/v1/employees/''"

text \<open>
  \<open>EmployeesDashboard.fetchEmployees\<close>. The status of the response is never read: any
  response with a JSON body goes through \<open>data.employees || []\<close>; the \<open>catch\<close> block
  runs when \<open>fetch\<close> rejects, when the body is not JSON, or when \<open>data\<close> is \<open>null\<close>.
\<close>

definition fetchEmployees ::
  "response outcome \<Rightarrow> browser \<times> employees_state \<Rightarrow> browser \<times> employees_state" where
  "fetchEmployees r = (\<lambda>(b, s).
     let s1 = s\<lparr>employees_state.loading := True\<rparr>;
         b1 = issue (Fetch \<lparr>http_method = ''GET'', url = employees_url,
                            authorization = Some (bearer b), payload = None\<rparr>) b;
         fallback = (b1, s1\<lparr>employees := demo_employees, employees_state.loading := False\<rparr>)
     in case r of
          Rejected e \<Rightarrow> fallback
        | Resolved resp \<Rightarrow>
            (case json resp of
               Rejected e \<Rightarrow> fallback
             | Resolved data \<Rightarrow>
                 (case get_prop data ''employees'' of
                    Inl e \<Rightarrow> fallback
                  | Inr v \<Rightarrow>
                      (b1, s1\<lparr>employees := (if truthy v then v else JArr []),
                               employees_state.loading := False\<rparr>))))"

text \<open>The literals of the \<open>catch\<close> block of \<open>fetchEmployeeDetails\<close>.\<close>

definition demo_selectedEmployee :: "string \<Rightarrow> jsval" where
  "demo_selectedEmployee employeeId = JObj
     [(''employee_id'', JStr employeeId),
      (''satisfaction_level'', JNum 0.45),
      (''last_evaluation'', JNum 0.65),
      (''number_project'', JNum 3),
      (''average_monthly_hours'', JNum 180),
      (''time_spend_company'', JNum 2),
      (''work_accident'', JNum 0),
      (''promotion_last_5years'', JNum 0),
      (''department'', JStr ''sales''),
      (''salary'', JStr ''medium''),
      (''left'', JNum 0)]"

definition demo_employeePredictions :: "string \<Rightarrow> jsval" where
  "demo_employeePredictions employeeId = JArr
     [JObj [(''employee_id'', JStr employeeId),
            (''turnover_probability'', JNum 0.35),
            (''risk_zone'', JStr ''medium''),
            (''prediction_date'', JStr ''2024-01-01T00:00:00Z''),
            (''model_used'', JStr ''random_forest''),
            (''confidence_score'', JNum 0.85)]]"

definition demo_retentionStrategies :: "string \<Rightarrow> jsval" where
  "demo_retentionStrategies employeeId = JArr
     [JObj [(''strategy_id'', JStr (''STRAT_'' @ employeeId @ ''_001'')),
            (''employee_id'', JStr employeeId),
            (''risk_zone'', JStr ''medium''),
            (''strategy_type'', JStr ''Career Development''),
            (''description'',
               JStr ''Create a career development plan with clear promotion path''),
            (''estimated_cost'', JNum 5000),
            (''success_probability'', JNum 0.7),
            (''status'', JStr ''pending''),
            (''created_at'', JStr ''2024-01-01T00:00:00Z'')]]"

text \<open>
  \<open>EmployeesDashboard.fetchEmployeeDetails\<close>: three fetches one after the other in one
  \<open>try\<close> block, with \<open>r1\<close>, \<open>r2\<close> and \<open>r3\<close> their outcomes; a later fetch is issued
  only when the ones before it went through. The \<open>catch\<close> block sets all three cells.
\<close>

definition fetchEmployeeDetails ::
  "string \<Rightarrow> response outcome \<Rightarrow> response outcome \<Rightarrow> response outcome \<Rightarrow>
   browser \<times> employees_state \<Rightarrow> browser \<times> employees_state" where
  "fetchEmployeeDetails employeeId r1 r2 r3 = (\<lambda>(b, s).
     let s1 = s\<lparr>employees_state.loading := True\<rparr>;
         get = (\<lambda>u. Fetch \<lparr>http_method = ''GET'', url = u,
                              authorization = Some (bearer b), payload = None\<rparr>);
         fallback = (\<lambda>b'. (b', s1\<lparr>selectedEmployee := demo_selectedEmployee employeeId,
                                   employeePredictions := demo_employeePredictions employeeId,
                                   retentionStrategies := demo_retentionStrategies employeeId,
                                   employees_state.loading := False\<rparr>));
         b1 = issue (get (employees_url @ employeeId)) b;
         b2 = issue (get (''http://localhost:8000/api/v1/predictions/employee/'' @ employeeId)) b1;
         b3 = issue (get (employees_url @ employeeId @ ''/retention-strategies'')) b2
     in case r1 of
          Rejected e \<Rightarrow> fallback b1
        | Resolved employeeResponse \<Rightarrow>
        (case json employeeResponse of
          Rejected e \<Rightarrow> fallback b1
        | Resolved employeeData \<Rightarrow>
        (case r2 of
          Rejected e \<Rightarrow> fallback b2
        | Resolved predictionsResponse \<Rightarrow>
        (case json predictionsResponse of
          Rejected e \<Rightarrow> fallback b2
        | Resolved predictionsData \<Rightarrow>
        (case r3 of
          Rejected e \<Rightarrow> fallback b3
        | Resolved strategiesResponse \<Rightarrow>
        (case json strategiesResponse of
          Rejected e \<Rightarrow> fallback b3
        | Resolved strategiesData \<Rightarrow>
        (case get_prop strategiesData ''strategies'' of
          Inl e \<Rightarrow> fallback b3
        | Inr v \<Rightarrow>
            (b3, s1\<lparr>selectedEmployee := employeeData,
                     employeePredictions := predictionsData,
                     retentionStrategies := (if truthy v then v else JArr []),
                     employees_state.loading := False\<rparr>))))))))"

definition handleFormChange :: "string \<Rightarrow> jsval \<Rightarrow> employees_state \<Rightarrow> employees_state" where
  "handleFormChange field v s = s\<lparr>formData := set_field (formData s) field v\<rparr>"

definition digit_char :: "nat \<Rightarrow> char" where
  "digit_char d =
     (if d = 0 then CHR ''0'' else if d = 1 then CHR ''1'' else if d = 2 then CHR ''2''
      else if d = 3 then CHR ''3'' else if d = 4 then CHR ''4'' else if d = 5 then CHR ''5''
      else if d = 6 then CHR ''6'' else if d = 7 then CHR ''7'' else if d = 8 then CHR ''8''
      else CHR ''9'')"

text \<open>The decimal digits of a natural number, as a template literal prints an integer.\<close>

fun digits :: "nat \<Rightarrow> string" where
  "digits n = (if n < 10 then [digit_char n] else digits (n div 10) @ [digit_char (n mod 10)])"

text \<open>
  \<open>EmployeesDashboard.createEmployee\<close>, the click handler of the "Create Employee"
  button. \<open>now\<close> is \<open>Date.now()\<close>, \<open>r\<close> the outcome of the POST and \<open>r2\<close> that of the
  \<open>fetchEmployees()\<close> started (and not awaited) after a 2xx response. The payload is the
  object handed to \<open>JSON.stringify\<close>.
\<close>

definition createEmployee ::
  "nat \<Rightarrow> response outcome \<Rightarrow> response outcome \<Rightarrow>
   browser \<times> employees_state \<Rightarrow> browser \<times> employees_state" where
  "createEmployee now r r2 = (\<lambda>(b, s).
     let s1 = s\<lparr>employees_state.loading := True\<rparr>;
         data = JObj (set_field (set_field (formData s) ''employee_id'' (JStr (''EMP'' @ digits now)))
                        ''left'' (JNum 0));
         b1 = issue (Fetch \<lparr>http_method = ''POST'', url = employees_url,
                            authorization = Some (bearer b), payload = Some data\<rparr>) b
     in case r of
          Rejected e \<Rightarrow>
            (b1\<lparr>alerts := alerts b1 @ [''Error creating employee. Please try again.'']\<rparr>,
             s1\<lparr>employees_state.loading := False\<rparr>)
        | Resolved resp \<Rightarrow>
            (if ok resp then
               (let (b2, s2) = fetchEmployees r2
                                 (b1, s1\<lparr>showAddForm := False, formData := initial_formData\<rparr>)
                in (b2\<lparr>alerts := alerts b2 @ [''Employee created successfully!'']\<rparr>,
                    s2\<lparr>employees_state.loading := False\<rparr>))
             else
               (b1\<lparr>alerts := alerts b1 @ [''Failed to create employee. Please try again.'']\<rparr>,
                s1\<lparr>employees_state.loading := False\<rparr>)))"

text \<open>\<open>EmployeesPage\<close> renders \<open>EmployeesDashboard\<close> at once; its effect calls \<open>fetchEmployees\<close>.\<close>

definition EmployeesPage_mount :: "response outcome \<Rightarrow> browser \<Rightarrow> browser \<times> employees_state" where
  "EmployeesPage_mount r b = fetchEmployees r (b, EmployeesDashboard_init)"

section \<open>Rates as percentages\<close>

text \<open>
  \<open>Number.prototype.toFixed(1)\<close>, which works on the exact value of the double:
  the sign, then the integer \<open>n\<close>
  with \<open>n / 10\<close> nearest to the magnitude (the larger one on a tie), printed in decimal,
  padded to two digits, with a point before the last digit. From \<open>10 ^ 21\<close> on the
  result is in exponent notation, which is left out: \<open>None\<close>.
\<close>

definition toFixed1 :: "rat \<Rightarrow> string option" where
  "toFixed1 x =
     (let s = (if x < 0 then ''-'' else []);
          y = \<bar>x\<bar>
      in if 10 ^ 21 \<le> y then None
         else (let n = nat \<lfloor>y * 10 + 1 / 2\<rfloor>;
                   m = digits n;
                   m' = (if length m \<le> 1 then replicate (2 - length m) (CHR ''0'') @ m else m);
                   k = length m'
               in Some (s @ take (k - 1) m' @ ''.'' @ drop (k - 1) m')))"

text \<open>
  \<open>Dashboard\<close>: \<open>{(dashboardStats.turnover_rate * 100).toFixed(1)}%\<close>. The product is
  that of two doubles.
\<close>

definition Dashboard_turnover_rate :: "rat \<Rightarrow> string option" where
  "Dashboard_turnover_rate turnover_rate =
     map_option (\<lambda>m. m @ ''%'') (toFixed1 (fl (turnover_rate * 100)))"

text \<open>
  \<open>AnalyticsDashboard\<close>:
  \<open>{analyticsData?.turnover_rate ? (analyticsData.turnover_rate * 100).toFixed(1) : '0.0'}%\<close>.
\<close>

definition AnalyticsDashboard_turnover_rate :: "rat \<Rightarrow> string option" where
  "AnalyticsDashboard_turnover_rate turnover_rate =
     map_option (\<lambda>m. m @ ''%'')
       (if truthy (JNum turnover_rate) then toFixed1 (fl (turnover_rate * 100)) else Some ''0.0'')"

text \<open>
  The formatting law in the specification's words, \<open>round(v * 100, 1) + "%"\<close>: the value
  times 100, rounded to the nearest tenth (a tie goes up), written with one decimal place,
  then the percent sign. \<open>spec_formatPercentage\<close> takes the product exactly,
  \<open>double_formatPercentage\<close> as the product of two doubles.
\<close>

definition round1 :: "rat \<Rightarrow> rat" where
  "round1 x = of_int (round (x * 10)) / 10"

definition show_decimal1 :: "rat \<Rightarrow> string" where
  "show_decimal1 r = digits (nat \<lfloor>r\<rfloor>) @ ''.'' @ [digit_char (nat (\<lfloor>r * 10\<rfloor> mod 10))]"

definition spec_formatPercentage :: "rat \<Rightarrow> string" where
  "spec_formatPercentage v = show_decimal1 (round1 (v * 100)) @ ''%''"

definition double_formatPercentage :: "rat \<Rightarrow> string" where
  "double_formatPercentage v = show_decimal1 (round1 (fl (v * 100))) @ ''%''"

text \<open>
  Reading a numeral with one decimal place back: decimal digits, a point, one digit.
\<close>

definition digit_value :: "char \<Rightarrow> nat option" where
  "digit_value c = map_of (zip ''0123456789'' [0, 1, 2, 3, 4, 5, 6, 7, 8, 9]) c"

fun numeral_value :: "nat \<Rightarrow> string \<Rightarrow> nat option" where
  "numeral_value acc [] = Some acc"
| "numeral_value acc (c # cs) =
     (case digit_value c of None \<Rightarrow> None | Some d \<Rightarrow> numeral_value (10 * acc + d) cs)"

definition read_decimal1 :: "string \<Rightarrow> rat option" where
  "read_decimal1 s =
     (if length s < 3 \<or> s ! (length s - 2) \<noteq> CHR ''.'' then None
      else (case (numeral_value 0 (take (length s - 2) s), digit_value (last s)) of
              (Some n, Some d) \<Rightarrow> Some (of_nat n + of_nat d / 10)
            | _ \<Rightarrow> None))"

section \<open>Predictions dashboard\<close>

record predictions_state =
  predictions :: jsval
  highRiskEmployees :: jsval
  predictionResult :: jsval
  loading :: bool
  employeeId :: string
  formData :: "(string \<times> jsval) list"

definition PredictionsDashboard_init :: predictions_state where
  "PredictionsDashboard_init =
     \<lparr>predictions = JArr [], highRiskEmployees = JArr [], predictionResult = JNull,
      loading = False, employeeId = [], formData = initial_formData\<rparr>"

definition demo_highRiskEmployees :: jsval where
  "demo_highRiskEmployees = JArr
     [JObj [(''employee_id'', JStr ''EMP001''),
            (''department'', JStr ''sales''),
            (''turnover_probability'', JNum 0.85),
            (''risk_zone'', JStr ''high''),
            (''last_evaluation'', JNum 0.45),
            (''satisfaction_level'', JNum 0.25),
            (''time_spend_company'', JNum 2)],
      JObj [(''employee_id'', JStr ''EMP003''),
            (''department'', JStr ''support''),
            (''turnover_probability'', JNum 0.78),
            (''risk_zone'', JStr ''high''),
            (''last_evaluation'', JNum 0.88),
            (''satisfaction_level'', JNum 0.11),
            (''time_spend_company'', JNum 4)]]"

text \<open>\<open>PredictionsDashboard.fetchHighRiskEmployees\<close>; it does not touch \<open>loading\<close>.\<close>

definition fetchHighRiskEmployees ::
  "jsval outcome \<Rightarrow> browser \<times> predictions_state \<Rightarrow> browser \<times> predictions_state" where
  "fetchHighRiskEmployees r = (\<lambda>(b, s).
     let b1 = issue (ApiClient ''getHighRiskPredictions'') b
     in case r of
          Resolved data \<Rightarrow> (b1, s\<lparr>highRiskEmployees := data\<rparr>)
        | Rejected e \<Rightarrow> (b1, s\<lparr>highRiskEmployees := demo_highRiskEmployees\<rparr>))"

definition demo_predictions :: "string \<Rightarrow> jsval" where
  "demo_predictions empId = JArr
     [JObj [(''id'', JNum 1),
            (''employee_id'', JStr empId),
            (''turnover_probability'', JNum 0.75),
            (''risk_zone'', JStr ''High Risk Zone (Red)''),
            (''model_used'', JStr ''random_forest''),
            (''prediction_confidence'', JStr ''High''),
            (''created_at'', JStr ''2024-01-01T00:00:00Z''),
            (''created_by'', JNum 1)],
      JObj [(''id'', JNum 2),
            (''employee_id'', JStr empId),
            (''turnover_probability'', JNum 0.68),
            (''risk_zone'', JStr ''Medium Risk Zone (Orange)''),
            (''model_used'', JStr ''random_forest''),
            (''prediction_confidence'', JStr ''Medium''),
            (''created_at'', JStr ''2024-01-02T00:00:00Z''),
            (''created_by'', JNum 1)]]"

text \<open>\<open>PredictionsDashboard.fetchEmployeePredictions\<close>: the parsed body is stored as it is.\<close>

definition fetchEmployeePredictions ::
  "string \<Rightarrow> response outcome \<Rightarrow> browser \<times> predictions_state \<Rightarrow> browser \<times> predictions_state" where
  "fetchEmployeePredictions empId r = (\<lambda>(b, s).
     let s1 = s\<lparr>predictions_state.loading := True\<rparr>;
         b1 = issue (Fetch \<lparr>http_method = ''GET'',
                            url = ''http://localhost:8000/api/v1/predictions/employee/'' @ empId,
                            authorization = Some (bearer b), payload = None\<rparr>) b;
         fallback = (b1, s1\<lparr>predictions := demo_predictions empId,
                              predictions_state.loading := False\<rparr>)
     in case r of
          Rejected e \<Rightarrow> fallback
        | Resolved resp \<Rightarrow>
            (case json resp of
               Rejected e \<Rightarrow> fallback
             | Resolved data \<Rightarrow>
                 (b1, s1\<lparr>predictions := data, predictions_state.loading := False\<rparr>)))"

text \<open>
  The nested conditional of the \<open>catch\<close> block of \<open>predictTurnover\<close>; the thresholds
  are the doubles that the literals \<open>0.2\<close>, \<open>0.6\<close> and \<open>0.9\<close> denote.
\<close>

definition riskZone :: "rat \<Rightarrow> string" where
  "riskZone mockProbability =
     (if mockProbability < fl 0.2 then ''low''
      else if mockProbability < fl 0.6 then ''medium''
      else if mockProbability < fl 0.9 then ''high''
      else ''critical'')"

text \<open>
  \<open>PredictionsDashboard.predictTurnover\<close>. \<open>mockProbability\<close> is the value of
  \<open>Math.random()\<close>, \<open>now\<close> that of \<open>Date.now()\<close> and \<open>created\<close> that of
  \<open>new Date().toISOString()\<close>, all read in the \<open>catch\<close> block.
\<close>

definition predictTurnover ::
  "rat \<Rightarrow> nat \<Rightarrow> string \<Rightarrow> jsval outcome \<Rightarrow>
   browser \<times> predictions_state \<Rightarrow> browser \<times> predictions_state" where
  "predictTurnover mockProbability now created r = (\<lambda>(b, s).
     let s1 = s\<lparr>predictions_state.loading := True\<rparr>;
         b1 = issue (ApiClient ''predictEmployeeTurnover'') b
     in case r of
          Resolved data \<Rightarrow>
            (b1, s1\<lparr>predictionResult := data, predictions_state.loading := False\<rparr>)
        | Rejected e \<Rightarrow>
            (let demoResult = JObj
                   [(''id'', JNum 1),
                    (''employee_id'', JStr (''EMP'' @ digits now)),
                    (''turnover_probability'', JNum mockProbability),
                    (''risk_zone'', JStr (riskZone mockProbability)),
                    (''model_used'', JStr ''random_forest''),
                    (''prediction_confidence'', JStr ''High''),
                    (''created_at'', JStr created),
                    (''created_by'', JNum 1)]
             in (b1, s1\<lparr>predictionResult := demoResult, predictions_state.loading := False\<rparr>)))"

text \<open>
  \<open>PredictionsDashboard.refreshAllData\<close>, the "Refresh Data" button: it sets \<open>loading\<close>,
  awaits \<open>fetchHighRiskEmployees\<close>, then \<open>predictTurnover\<close> when a prediction result is
  shown, then \<open>fetchEmployeePredictions\<close> when an employee id is entered, and clears
  \<open>loading\<close>. None of the three throws. \<open>rh\<close>, \<open>rp\<close> and \<open>rf\<close> are the outcomes of
  their calls.
\<close>

definition refreshAllData ::
  "jsval outcome \<Rightarrow> rat \<Rightarrow> nat \<Rightarrow> string \<Rightarrow> jsval outcome \<Rightarrow> response outcome \<Rightarrow>
   browser \<times> predictions_state \<Rightarrow> browser \<times> predictions_state" where
  "refreshAllData rh mockProbability now created rp rf = (\<lambda>(b, s).
     let s1 = s\<lparr>predictions_state.loading := True\<rparr>;
         (b2, s2) = fetchHighRiskEmployees rh (b, s1);
         (b3, s3) = (if truthy (predictionResult s)
                     then predictTurnover mockProbability now created rp (b2, s2)
                     else (b2, s2));
         (b4, s4) = (if employeeId s \<noteq> []
                     then fetchEmployeePredictions (employeeId s) rf (b3, s3)
                     else (b3, s3))
     in (b4, s4\<lparr>predictions_state.loading := False\<rparr>))"

text \<open>
  \<open>PredictionsPage\<close> renders \<open>PredictionsDashboard\<close> at once; its effect calls
  \<open>fetchHighRiskEmployees\<close>.
\<close>

definition PredictionsPage_mount :: "jsval outcome \<Rightarrow> browser \<Rightarrow> browser \<times> predictions_state" where
  "PredictionsPage_mount r b = fetchHighRiskEmployees r (b, PredictionsDashboard_init)"

section \<open>High risk table\<close>

text \<open>
  What \<open>HighRiskTable\<close> renders: the heading, the count beside it, the table head, one
  row per employee and, for an empty list, the empty state with its title and message.
\<close>

datatype node =
    Heading string
  | CountLabel nat
  | TableHead "string list"
  | TableRow "string list"
  | EmptyState string string

text \<open>
  The cells of a row use \<open>formatPercentage\<close>, \<open>formatDateTime\<close> and
  \<open>getRiskZoneColor\<close> of \<open>lib/utils\<close>, so the rendering of one row is a parameter; it
  may throw. \<open>data.map\<close> stops at the first row that throws.
\<close>

fun render_rows :: "(jsval \<Rightarrow> exn + string list) \<Rightarrow> jsval list \<Rightarrow> exn + node list" where
  "render_rows row [] = Inr []"
| "render_rows row (e # es) =
     (case row e of
        Inl x \<Rightarrow> Inl x
      | Inr cells \<Rightarrow> (case render_rows row es of Inl x \<Rightarrow> Inl x | Inr ns \<Rightarrow> Inr (TableRow cells # ns)))"

text \<open>
  \<open>HighRiskTable\<close>: \<open>data.length\<close> and \<open>data.map\<close> need an array; on any other value
  the render throws a \<open>TypeError\<close>.
\<close>

fun HighRiskTable :: "(jsval \<Rightarrow> exn + string list) \<Rightarrow> jsval \<Rightarrow> exn + node list" where
  "HighRiskTable row (JArr data) =
     (case render_rows row data of
        Inl x \<Rightarrow> Inl x
      | Inr rows \<Rightarrow>
          Inr ([Heading ''High Risk Employees'', CountLabel (length data),
                TableHead [''Employee'', ''Department'', ''Salary'', ''Risk Level'',
                           ''Probability'', ''Predicted'']]
               @ rows
               @ (if length data = 0
                  then [EmptyState ''No High Risk Employees''
                          ''Great news! All employees are currently in safe zones.'']
                  else [])))"
| "HighRiskTable row v = Inl TypeError"

section \<open>The prediction result card\<close>

text \<open>\<open>String.prototype.includes\<close>.\<close>

fun starts_with :: "string \<Rightarrow> string \<Rightarrow> bool" where
  "starts_with s [] = True"
| "starts_with [] (c # cs) = False"
| "starts_with (d # ds) (c # cs) = (d = c \<and> starts_with ds cs)"

fun string_includes :: "string \<Rightarrow> string \<Rightarrow> bool" where
  "string_includes [] pat = (pat = [])"
| "string_includes (d # ds) pat = (starts_with (d # ds) pat \<or> string_includes ds pat)"

text \<open>\<open>PredictionsDashboard.getRiskColor\<close> and \<open>getShortRiskZone\<close>.\<close>

definition getRiskColor :: "string \<Rightarrow> string" where
  "getRiskColor risk =
     (if string_includes risk ''Safe Zone'' \<or> string_includes risk ''Green'' then ''bg-green-100 text-green-800''
      else if string_includes risk ''Low Risk'' \<or> string_includes risk ''Yellow''
        then ''bg-yellow-100 text-yellow-800''
      else if string_includes risk ''Medium Risk'' \<or> string_includes risk ''Orange''
        then ''bg-orange-100 text-orange-800''
      else if string_includes risk ''High Risk'' \<or> string_includes risk ''Red'' then ''bg-red-100 text-red-800''
      else ''bg-gray-100 text-gray-800'')"

definition getShortRiskZone :: "string \<Rightarrow> string" where
  "getShortRiskZone risk =
     (if string_includes risk ''Safe Zone'' \<or> string_includes risk ''Green'' then ''SAFE''
      else if string_includes risk ''Low Risk'' \<or> string_includes risk ''Yellow'' then ''LOW''
      else if string_includes risk ''Medium Risk'' \<or> string_includes risk ''Orange'' then ''MEDIUM''
      else if string_includes risk ''High Risk'' \<or> string_includes risk ''Red'' then ''HIGH''
      else ''UNKNOWN'')"

text \<open>
  What the "Prediction Result" card shows of a prediction whose \<open>risk_zone\<close> is the
  string \<open>risk_zone\<close> and whose \<open>turnover_probability\<close> is the double
  \<open>turnover_probability\<close>: the badge with its colour classes, the probability, and the
  lines of the risk assessment (\<open>c && 'text'\<close> shows the text when \<open>c\<close> holds).
\<close>

record result_card =
  badge :: string
  badge_colour :: string
  probability :: "string option"
  assessment :: "string list"

definition prediction_result_card :: "string \<Rightarrow> rat \<Rightarrow> result_card" where
  "prediction_result_card risk_zone turnover_probability =
     \<lparr>badge = getShortRiskZone risk_zone @ '' RISK ZONE'',
      badge_colour = getRiskColor risk_zone,
      probability = map_option (\<lambda>m. m @ ''%'') (toFixed1 (fl (turnover_probability * 100))),
      assessment =
        (if risk_zone = ''low''
         then [''This employee has a low risk of leaving. Continue current engagement strategies.'']
         else [])
        @ (if risk_zone = ''medium''
           then [''This employee has a moderate risk of leaving. Consider proactive retention measures.'']
           else [])
        @ (if risk_zone = ''high''
           then [''This employee has a high risk of leaving. Immediate retention action recommended.'']
           else [])
        @ (if risk_zone = ''critical''
           then [''This employee has a critical risk of leaving. Urgent intervention required.'']
           else [])\<rparr>"

section \<open>Concrete situations\<close>

text \<open>A tab opened at a path, with the given content of the token slot and nothing issued yet.\<close>

definition tab :: "string \<Rightarrow> string option \<Rightarrow> browser" where
  "tab path t = \<lparr>token = t, href = path, network = [], alerts = []\<rparr>"


text \<open>An \<open>apiClient.login\<close> that succeeds and stores the token it received.\<close>

definition storing :: "string \<Rightarrow> jsval api_call" where
  "storing tk t = (Resolved (JObj [(''access_token'', JStr tk)]), Some tk)"

text \<open>An error response of the API: a status and the usual JSON body with a \<open>detail\<close> field.\<close>

definition error_response :: "nat \<Rightarrow> string \<Rightarrow> response" where
  "error_response code msg = \<lparr>status = code, body = Some (JObj [(''detail'', JStr msg)])\<rparr>"


text \<open>A 2xx answer with the given JSON body.\<close>

definition json_response :: "jsval \<Rightarrow> response" where
  "json_response v = \<lparr>status = 200, body = Some v\<rparr>"



text \<open>A live answer of the dashboard analytics endpoint, different from the demo data.\<close>

definition live_analyticsData :: jsval where
  "live_analyticsData = JObj
     [(''total_employees'', JNum 120),
      (''employees_left'', JNum 12),
      (''turnover_rate'', JNum 0.1),
      (''high_risk_employees'', JNum 7),
      (''safe_employees'', JNum 90),
      (''department_stats'', JArr [])]"

text \<open>Every analytics call resolves, but the risk distribution one, which gets no response.\<close>

definition one_failure :: analytics_outcomes where
  "one_failure =
     \<lparr>dashboardData = Resolved live_analyticsData,
      riskData = Rejected NetworkError,
      deptData = Resolved (JArr []),
      salaryData = Resolved (JArr []),
      satisfactionData = Resolved (JArr []),
      projectData = Resolved (JArr []),
      clusteringData = Resolved (JArr [])\<rparr>"

text \<open>Every analytics call resolves.\<close>

definition all_live :: analytics_outcomes where
  "all_live = one_failure\<lparr>riskData := Resolved (JObj [(''low'', JNum 90), (''medium'', JNum 23),
                                                     (''high'', JNum 5), (''critical'', JNum 2)])\<rparr>"

text \<open>The form after the user has typed 1.5 into the satisfaction field.\<close>

definition form_with_1_5 :: employees_state where
  "form_with_1_5 = handleFormChange ''satisfaction_level'' (JNum 1.5) EmployeesDashboard_init"

section \<open>Logout and login\<close>

lemma handleLogout_cases:
  "handleLogout logout (b, u) =
     Inr ((issue (ApiClient ''logout'') b)\<lparr>token := None, href := ''/login''\<rparr>, False)"
  by (simp add: handleLogout_def issue_def Let_def split: prod.splits outcome.splits)

text \<open>
  C7. Logout is idempotent and best-effort: whatever \<open>apiClient.logout\<close> does and
  returns, the handler's promise is fulfilled (nothing is thrown) and the token slot is
  empty afterwards; this holds with no token stored too, and a second logout leaves the
  slot empty again.
\<close>

theorem logout_clears_token:
  "\<exists>b' u'. handleLogout logout (b, u) = Inr (b', u') \<and> token b' = None \<and>
     (\<exists>b'' u''. handleLogout logout' (b', u') = Inr (b'', u'') \<and> token b'' = None)"
  by (auto simp: handleLogout_cases issue_def)














section \<open>Session guard\<close>

lemma Dashboard_useEffect_no_token:
  "token b = None \<Longrightarrow> Dashboard_useEffect r (b, s) = (b\<lparr>href := ''/landing''\<rparr>, s)"
  by (simp add: Dashboard_useEffect_def getItem_token_def)

lemma AdminPage_mount_no_token:
  "token b = None \<Longrightarrow> AdminPage_mount r b = (b\<lparr>href := ''/landing''\<rparr>, False, AdminDashboard_init)"
  by (simp add: AdminPage_mount_def getItem_token_def)

text \<open>
  C1 fails on three of the five views. With an empty token slot, the dashboard and the
  admin page redirect to \<open>/landing\<close> and issue nothing, but the analytics, employees and
  predictions pages stay where they are and issue their fetches: seven API calls, a GET
  of the employee list with the header \<open>Bearer null\<close>, and the high-risk call.
\<close>

theorem unguarded_pages_fetch_without_token:
  "Dashboard_useEffect r0 (tab ''/dashboard'' None, Dashboard_init)
     = (tab ''/landing'' None, Dashboard_init) \<and>
   AdminPage_mount r0 (tab ''/admin'' None) = (tab ''/landing'' None, False, AdminDashboard_init) \<and>
   fst (AnalyticsPage_mount rs (tab ''/analytics'' None))
     = (tab ''/analytics'' None)\<lparr>network := analytics_calls\<rparr> \<and>
   fst (EmployeesPage_mount r1 (tab ''/employees'' None))
     = (tab ''/employees'' None)
         \<lparr>network := [Fetch \<lparr>http_method = ''GET'', url = employees_url,
                              authorization = Some ''Bearer null'', payload = None\<rparr>]\<rparr> \<and>
   fst (PredictionsPage_mount r2 (tab ''/predictions'' None))
     = (tab ''/predictions'' None)\<lparr>network := [ApiClient ''getHighRiskPredictions'']\<rparr>"
proof -
  have "Dashboard_useEffect r0 (tab ''/dashboard'' None, Dashboard_init)
     = (tab ''/landing'' None, Dashboard_init)"
    by (simp add: Dashboard_useEffect_no_token tab_def)
  moreover have "AdminPage_mount r0 (tab ''/admin'' None)
     = (tab ''/landing'' None, False, AdminDashboard_init)"
    by (simp add: AdminPage_mount_no_token tab_def)
  moreover have "fst (AnalyticsPage_mount rs (tab ''/analytics'' None))
     = (tab ''/analytics'' None)\<lparr>network := analytics_calls\<rparr>"
    by (simp add: AnalyticsPage_mount_def fetchAnalyticsData_def tab_def Let_def
        split: outcome.splits)
  moreover have "fst (EmployeesPage_mount r1 (tab ''/employees'' None))
     = (tab ''/employees'' None)
         \<lparr>network := [Fetch \<lparr>http_method = ''GET'', url = employees_url,
                              authorization = Some ''Bearer null'', payload = None\<rparr>]\<rparr>"
    by (simp add: EmployeesPage_mount_def fetchEmployees_def tab_def issue_def bearer_def Let_def
        split: outcome.splits sum.splits)
  moreover have "fst (PredictionsPage_mount r2 (tab ''/predictions'' None))
     = (tab ''/predictions'' None)\<lparr>network := [ApiClient ''getHighRiskPredictions'']\<rparr>"
    by (simp add: PredictionsPage_mount_def fetchHighRiskEmployees_def tab_def issue_def Let_def
        split: outcome.splits)
  ultimately show ?thesis
    by (simp only: simp_thms)
qed

section \<open>Responses with status 401\<close>

text \<open>
  C3 fails on the handlers that call \<open>fetch\<close> themselves. With the token \<open>stale\<close>
  stored and a 401 answer carrying the API's JSON error body, \<open>fetchEmployees\<close> ends with
  an empty employee list and \<open>fetchEmployeePredictions\<close> with the error body as its
  predictions; both leave \<open>stale\<close> in the token slot.
\<close>

theorem status_401_keeps_token:
  "fetchEmployees (Resolved (error_response 401 ''Could not validate credentials''))
       (tab ''/employees'' (Some ''stale''), EmployeesDashboard_init)
     = ((tab ''/employees'' (Some ''stale''))
          \<lparr>network := [Fetch \<lparr>http_method = ''GET'', url = employees_url,
                               authorization = Some ''Bearer stale'', payload = None\<rparr>]\<rparr>,
        EmployeesDashboard_init) \<and>
   fetchEmployeePredictions ''EMP001''
       (Resolved (error_response 401 ''Could not validate credentials''))
       (tab ''/predictions'' (Some ''stale''), PredictionsDashboard_init)
     = ((tab ''/predictions'' (Some ''stale''))
          \<lparr>network := [Fetch \<lparr>http_method = ''GET'',
                               url = ''http://localhost:8000/api/v1/predictions/employee/EMP001'',
                               authorization = Some ''Bearer stale'', payload = None\<rparr>]\<rparr>,
        PredictionsDashboard_init
          \<lparr>predictions := JObj [(''detail'', JStr ''Could not validate credentials'')]\<rparr>)"
  by (simp add: fetchEmployees_def fetchEmployeePredictions_def error_response_def json_def
      tab_def issue_def bearer_def Let_def EmployeesDashboard_init_def PredictionsDashboard_init_def)

section \<open>Creating an employee\<close>

text \<open>
  C6 fails: \<open>createEmployee\<close> checks nothing. With 1.5 typed into the satisfaction field,
  a click on "Create Employee" issues, whatever the server answers, a POST whose payload
  carries \<open>satisfaction_level = 1.5\<close>.
\<close>

theorem out_of_range_satisfaction_is_posted:
  "get_prop (JObj (employees_state.formData form_with_1_5)) ''satisfaction_level'' = Inr (JNum 1.5) \<and>
   hd (network (fst (createEmployee 1700000000000 r r2 (tab ''/employees'' (Some ''t''), form_with_1_5))))
     = Fetch \<lparr>http_method = ''POST'', url = employees_url, authorization = Some ''Bearer t'',
              payload = Some (JObj
                [(''satisfaction_level'', JNum 1.5),
                 (''last_evaluation'', JNum 0.5),
                 (''number_project'', JNum 2),
                 (''average_monthly_hours'', JNum 160),
                 (''time_spend_company'', JNum 2),
                 (''work_accident'', JNum 0),
                 (''promotion_last_5years'', JNum 0),
                 (''department'', JStr ''sales''),
                 (''salary'', JStr ''low''),
                 (''employee_id'', JStr ''EMP1700000000000''),
                 (''left'', JNum 0)])\<rparr>"
proof -
  have d: "digits 1700000000000 = ''1700000000000''"
    by (simp add: digit_char_def)
  have f: "employees_state.formData form_with_1_5 = (''satisfaction_level'', JNum 1.5) # tl initial_formData"
    by (simp add: form_with_1_5_def handleFormChange_def EmployeesDashboard_init_def
        initial_formData_def)
  have n: "network (fst (fetchEmployees r2 (b', s'))) = network b' @
      [Fetch \<lparr>http_method = ''GET'', url = employees_url,
              authorization = Some (bearer b'), payload = None\<rparr>]" for b' s'
    by (simp add: fetchEmployees_def issue_def Let_def split: outcome.splits sum.splits)
  show ?thesis
    by (simp add: createEmployee_def f d n initial_formData_def tab_def issue_def bearer_def
        Let_def split_beta del: digits.simps split: outcome.splits)
qed

section \<open>Fallback data\<close>

lemma Promise_all_Rejected: "list_ex rejected rs \<Longrightarrow> rejected (Promise_all rs)"
proof (induction rs)
  case Nil
  then show ?case by simp
next
  case (Cons r rs)
  then show ?case
    by (cases r) (auto split: outcome.splits)
qed

lemma Promise_all_Resolved:
  "\<not> list_ex rejected rs \<Longrightarrow> Promise_all rs = Resolved (map the_value rs)"
proof (induction rs)
  case Nil
  then show ?case by simp
next
  case (Cons r rs)
  then show ?case
    by (cases r) auto
qed

lemma fetchAnalyticsData_Rejected:
  assumes "list_ex rejected (outcomes rs)"
  shows "fetchAnalyticsData rs (b, s) =
     (b\<lparr>network := network b @ analytics_calls\<rparr>,
      s\<lparr>analyticsData := demo_analyticsData,
        riskDistribution := demo_riskDistribution,
        turnoverByDept := demo_turnoverByDept,
        turnoverBySalary := demo_turnoverBySalary,
        satisfactionDist := demo_satisfactionDist,
        projectAnalysis := demo_projectAnalysis,
        clusteringAnalysis := demo_clusteringAnalysis,
        analytics_state.loading := False\<rparr>)"
proof -
  from assms obtain e where "Promise_all (outcomes rs) = Rejected e"
    using Promise_all_Rejected [of "outcomes rs"] by (cases "Promise_all (outcomes rs)") auto
  then show ?thesis
    by (simp add: fetchAnalyticsData_def Let_def)
qed

lemma fetchAnalyticsData_Resolved:
  assumes "\<not> list_ex rejected (outcomes rs)"
  shows "fetchAnalyticsData rs (b, s) =
     (b\<lparr>network := network b @ analytics_calls\<rparr>,
      s\<lparr>analyticsData := the_value (dashboardData rs),
        riskDistribution := the_value (riskData rs),
        turnoverByDept := the_value (deptData rs),
        turnoverBySalary := the_value (salaryData rs),
        satisfactionDist := the_value (satisfactionData rs),
        projectAnalysis := the_value (projectData rs),
        clusteringAnalysis := the_value (clusteringData rs),
        analytics_state.loading := False\<rparr>)"
proof -
  have "Promise_all (outcomes rs) = Resolved (map the_value (outcomes rs))"
    using assms by (rule Promise_all_Resolved)
  then show ?thesis
    by (simp add: fetchAnalyticsData_def Let_def item_def outcomes_def)
qed

lemma one_failure_Rejected: "list_ex rejected (outcomes one_failure)"
  by (simp add: outcomes_def one_failure_def)

lemma demo_total_employees: "get_prop demo_analyticsData ''total_employees'' = Inr (JNum 14999)"
  by (simp add: demo_analyticsData_def)

text \<open>
  C2, as stated, fails: when only the risk distribution call fails, the live dashboard
  data that did arrive (120 employees) is not kept; the view holds the demo data
  (14999 employees).
\<close>

theorem live_data_replaced_by_demo:
  "dashboardData one_failure = Resolved live_analyticsData \<and>
   analyticsData (snd (fetchAnalyticsData one_failure
       (tab ''/analytics'' (Some ''t''), AnalyticsDashboard_init))) = demo_analyticsData \<and>
   get_prop demo_analyticsData ''total_employees'' = Inr (JNum 14999) \<and>
   get_prop live_analyticsData ''total_employees'' = Inr (JNum 120)"
  by (simp add: fetchAnalyticsData_Rejected [OF one_failure_Rejected] demo_total_employees)
     (simp add: one_failure_def live_analyticsData_def)

text \<open>
  C2, amended. The fallback of the Analytics view is all or nothing: if at least one of
  the seven calls is rejected, every one of the seven resources is set to its demo
  dataset, also those whose call resolved; if none is rejected, every resource holds
  the value its call resolved with. In both cases \<open>loading\<close> ends false.
\<close>

theorem analytics_fallback_all_or_nothing:
  "snd (fetchAnalyticsData rs (b, s)) =
     (if list_ex rejected (outcomes rs)
      then s\<lparr>analyticsData := demo_analyticsData,
             riskDistribution := demo_riskDistribution,
             turnoverByDept := demo_turnoverByDept,
             turnoverBySalary := demo_turnoverBySalary,
             satisfactionDist := demo_satisfactionDist,
             projectAnalysis := demo_projectAnalysis,
             clusteringAnalysis := demo_clusteringAnalysis,
             analytics_state.loading := False\<rparr>
      else s\<lparr>analyticsData := the_value (dashboardData rs),
             riskDistribution := the_value (riskData rs),
             turnoverByDept := the_value (deptData rs),
             turnoverBySalary := the_value (salaryData rs),
             satisfactionDist := the_value (satisfactionData rs),
             projectAnalysis := the_value (projectData rs),
             clusteringAnalysis := the_value (clusteringData rs),
             analytics_state.loading := False\<rparr>)"
proof (cases "list_ex rejected (outcomes rs)")
  case True
  then show ?thesis
    by (simp add: fetchAnalyticsData_Rejected)
next
  case False
  then show ?thesis
    by (simp add: fetchAnalyticsData_Resolved)
qed

lemma fetchEmployees_Rejected:
  "fetchEmployees (Rejected e) (b, s) =
     (issue (Fetch \<lparr>http_method = ''GET'', url = employees_url,
                     authorization = Some (bearer b), payload = None\<rparr>) b,
      s\<lparr>employees := demo_employees, employees_state.loading := False\<rparr>)"
  by (simp add: fetchEmployees_def Let_def)

lemma fetchEmployeeDetails_Rejected:
  assumes "list_ex rejected [fa, fb, fc]"
  shows "snd (fetchEmployeeDetails empId fa fb fc (b, s)) =
     s\<lparr>selectedEmployee := demo_selectedEmployee empId,
       employeePredictions := demo_employeePredictions empId,
       retentionStrategies := demo_retentionStrategies empId,
       employees_state.loading := False\<rparr>"
  using assms
  by (cases fa; cases fb; cases fc)
     (simp_all add: fetchEmployeeDetails_def Let_def split: outcome.splits sum.splits)

text \<open>
  C4, as stated, fails: the Dashboard's own fetch has no fallback dataset. Mounted with a
  token, after a network error its stats are still \<open>null\<close>.
\<close>

theorem dashboard_fetch_has_no_fallback:
  "dashboardStats Dashboard_init = JNull \<and>
   snd (Dashboard_useEffect (Rejected NetworkError) (tab ''/dashboard'' (Some ''t''), Dashboard_init))
     = Dashboard_init\<lparr>isAuthenticated := True, dashboard_state.loading := False\<rparr> \<and>
   dashboardStats (snd (Dashboard_useEffect (Rejected NetworkError)
       (tab ''/dashboard'' (Some ''t''), Dashboard_init))) = JNull"
  by (simp add: Dashboard_useEffect_def fetchDashboardStats_def getItem_token_def tab_def
      Dashboard_init_def Let_def)

text \<open>
  C4, amended. For every view-resource fetch whose awaited call is rejected (no response,
  or an \<open>apiClient\<close> call rejected with any error), the view's data equals its fixed
  fallback dataset and \<open>loading\<close> is false: all seven Analytics resources, so that
  \<open>total_employees\<close> reads 14999; the employee list; the three cells of an employee's
  details, when any of their three fetches is rejected; an employee's prediction
  history; the system status; the high-risk list, whose fetch leaves \<open>loading\<close> to
  its caller, so that it is false on mount and after "Refresh Data". The one exception is
  the Dashboard's own stats, which have no fallback dataset: they stay as they were, with
  \<open>loading\<close> false.
\<close>

theorem rejected_fetch_falls_back:
  assumes "list_ex rejected (outcomes rs)" "list_ex rejected [fa, fb, fc]"
  shows "snd (fetchAnalyticsData rs (b, a))
       = a\<lparr>analyticsData := demo_analyticsData,
           riskDistribution := demo_riskDistribution,
           turnoverByDept := demo_turnoverByDept,
           turnoverBySalary := demo_turnoverBySalary,
           satisfactionDist := demo_satisfactionDist,
           projectAnalysis := demo_projectAnalysis,
           clusteringAnalysis := demo_clusteringAnalysis,
           analytics_state.loading := False\<rparr> \<and>
     get_prop (analyticsData (snd (fetchAnalyticsData rs (b, a)))) ''total_employees''
       = Inr (JNum 14999) \<and>
     snd (fetchEmployees (Rejected e) (b, es))
       = es\<lparr>employees := demo_employees, employees_state.loading := False\<rparr> \<and>
     snd (fetchEmployeeDetails empId fa fb fc (b, es))
       = es\<lparr>selectedEmployee := demo_selectedEmployee empId,
            employeePredictions := demo_employeePredictions empId,
            retentionStrategies := demo_retentionStrategies empId,
            employees_state.loading := False\<rparr> \<and>
     snd (fetchEmployeePredictions empId (Rejected e) (b, ps))
       = ps\<lparr>predictions := demo_predictions empId, predictions_state.loading := False\<rparr> \<and>
     snd (fetchSystemStatus (Rejected e) (b, ad))
       = ad\<lparr>systemStatus := demo_systemStatus, admin_state.loading := False\<rparr> \<and>
     snd (fetchHighRiskEmployees (Rejected e) (b, ps))
       = ps\<lparr>highRiskEmployees := demo_highRiskEmployees\<rparr> \<and>
     snd (PredictionsPage_mount (Rejected e) b)
       = PredictionsDashboard_init\<lparr>highRiskEmployees := demo_highRiskEmployees\<rparr> \<and>
     predictions_state.loading (snd (PredictionsPage_mount (Rejected e) b)) = False \<and>
     highRiskEmployees (snd (refreshAllData (Rejected e) p now created rp rf (b, ps)))
       = demo_highRiskEmployees \<and>
     predictions_state.loading (snd (refreshAllData (Rejected e) p now created rp rf (b, ps)))
       = False \<and>
     snd (fetchDashboardStats (Rejected e) (b, d)) = d\<lparr>dashboard_state.loading := False\<rparr>"
proof -
  have "snd (PredictionsPage_mount (Rejected e) b)
       = PredictionsDashboard_init\<lparr>highRiskEmployees := demo_highRiskEmployees\<rparr>"
    by (simp add: PredictionsPage_mount_def fetchHighRiskEmployees_def Let_def)
  moreover have "predictions_state.loading (snd (PredictionsPage_mount (Rejected e) b)) = False"
    by (simp add: PredictionsPage_mount_def fetchHighRiskEmployees_def Let_def
        PredictionsDashboard_init_def)
  moreover have "highRiskEmployees (snd (refreshAllData (Rejected e) p now created rp rf (b, ps)))
       = demo_highRiskEmployees"
    by (simp add: refreshAllData_def fetchHighRiskEmployees_def predictTurnover_def
        fetchEmployeePredictions_def Let_def split_beta del: digits.simps split: outcome.splits)
  moreover have "predictions_state.loading
       (snd (refreshAllData (Rejected e) p now created rp rf (b, ps))) = False"
    by (simp add: refreshAllData_def split_beta Let_def)
  moreover
  have "snd (fetchEmployeePredictions empId (Rejected e) (b, ps))
       = ps\<lparr>predictions := demo_predictions empId, predictions_state.loading := False\<rparr>"
    by (simp add: fetchEmployeePredictions_def Let_def)
  moreover have "snd (fetchSystemStatus (Rejected e) (b, ad))
       = ad\<lparr>systemStatus := demo_systemStatus, admin_state.loading := False\<rparr>"
    by (simp add: fetchSystemStatus_def Let_def)
  moreover have "snd (fetchHighRiskEmployees (Rejected e) (b, ps))
       = ps\<lparr>highRiskEmployees := demo_highRiskEmployees\<rparr>"
    by (simp add: fetchHighRiskEmployees_def Let_def)
  moreover have "snd (fetchDashboardStats (Rejected e) (b, d))
       = d\<lparr>dashboard_state.loading := False\<rparr>"
    by (simp add: fetchDashboardStats_def Let_def)
  ultimately show ?thesis
    by (simp add: fetchAnalyticsData_Rejected [OF assms(1)] fetchEmployees_Rejected
        fetchEmployeeDetails_Rejected [OF assms(2)] demo_total_employees)
qed

text \<open>
  With the risk distribution call alone rejected, the Analytics view reads 14999 total
  employees, holds the demo risk distribution and is not loading; with no response, the
  employee list is the demo list; with the second of the three detail fetches rejected,
  the selected employee is the demo employee.
\<close>

theorem rejected_fetch_falls_back_witness:
  "list_ex rejected (outcomes one_failure) \<and>
   list_ex rejected [Resolved (json_response (JObj [(''employee_id'', JStr ''EMP001'')])), Rejected NetworkError, Rejected NetworkError] \<and>
   get_prop (analyticsData (snd (fetchAnalyticsData one_failure
       (tab ''/analytics'' (Some ''t''), AnalyticsDashboard_init)))) ''total_employees''
     = Inr (JNum 14999) \<and>
   analytics_state.loading (snd (fetchAnalyticsData one_failure
       (tab ''/analytics'' (Some ''t''), AnalyticsDashboard_init))) = False \<and>
   riskDistribution (snd (fetchAnalyticsData one_failure
       (tab ''/analytics'' (Some ''t''), AnalyticsDashboard_init))) = demo_riskDistribution \<and>
   employees (snd (fetchEmployees (Rejected NetworkError)
       (tab ''/analytics'' (Some ''t''), EmployeesDashboard_init))) = demo_employees \<and>
   selectedEmployee (snd (fetchEmployeeDetails ''EMP001'' (Resolved (json_response (JObj [(''employee_id'', JStr ''EMP001'')])))
       (Rejected NetworkError) (Rejected NetworkError)
       (tab ''/analytics'' (Some ''t''), EmployeesDashboard_init)))
     = demo_selectedEmployee ''EMP001''"
proof -
  have h: "list_ex rejected
      [Resolved (json_response (JObj [(''employee_id'', JStr ''EMP001'')])), Rejected NetworkError, Rejected NetworkError]"
    by simp
  note fb = rejected_fetch_falls_back [OF one_failure_Rejected h,
      where b = "tab ''/analytics'' (Some ''t'')" and a = AnalyticsDashboard_init
        and e = NetworkError and es = EmployeesDashboard_init and empId = "''EMP001''"
        and ps = PredictionsDashboard_init and ad = AdminDashboard_init and d = Dashboard_init]
  from fb have 1: "get_prop (analyticsData (snd (fetchAnalyticsData one_failure
       (tab ''/analytics'' (Some ''t''), AnalyticsDashboard_init)))) ''total_employees''
     = Inr (JNum 14999)"
    by blast
  from fb have "snd (fetchAnalyticsData one_failure
       (tab ''/analytics'' (Some ''t''), AnalyticsDashboard_init))
       = AnalyticsDashboard_init\<lparr>analyticsData := demo_analyticsData,
           riskDistribution := demo_riskDistribution,
           turnoverByDept := demo_turnoverByDept,
           turnoverBySalary := demo_turnoverBySalary,
           satisfactionDist := demo_satisfactionDist,
           projectAnalysis := demo_projectAnalysis,
           clusteringAnalysis := demo_clusteringAnalysis,
           analytics_state.loading := False\<rparr>"
    by blast
  then have 2: "analytics_state.loading (snd (fetchAnalyticsData one_failure
       (tab ''/analytics'' (Some ''t''), AnalyticsDashboard_init))) = False"
    and 3: "riskDistribution (snd (fetchAnalyticsData one_failure
       (tab ''/analytics'' (Some ''t''), AnalyticsDashboard_init))) = demo_riskDistribution"
    by simp_all
  from fb have "snd (fetchEmployees (Rejected NetworkError)
       (tab ''/analytics'' (Some ''t''), EmployeesDashboard_init))
       = EmployeesDashboard_init\<lparr>employees := demo_employees,
           employees_state.loading := False\<rparr>"
    by blast
  then have 4: "employees (snd (fetchEmployees (Rejected NetworkError)
       (tab ''/analytics'' (Some ''t''), EmployeesDashboard_init))) = demo_employees"
    by simp
  from fb have "snd (fetchEmployeeDetails ''EMP001'' (Resolved (json_response (JObj [(''employee_id'', JStr ''EMP001'')])))
       (Rejected NetworkError) (Rejected NetworkError)
       (tab ''/analytics'' (Some ''t''), EmployeesDashboard_init))
       = EmployeesDashboard_init\<lparr>selectedEmployee := demo_selectedEmployee ''EMP001'',
            employeePredictions := demo_employeePredictions ''EMP001'',
            retentionStrategies := demo_retentionStrategies ''EMP001'',
            employees_state.loading := False\<rparr>"
    by blast
  then have 5: "selectedEmployee (snd (fetchEmployeeDetails ''EMP001''
       (Resolved (json_response (JObj [(''employee_id'', JStr ''EMP001'')]))) (Rejected NetworkError) (Rejected NetworkError)
       (tab ''/analytics'' (Some ''t''), EmployeesDashboard_init)))
     = demo_selectedEmployee ''EMP001''"
    by simp
  from one_failure_Rejected h 1 2 3 4 5 show ?thesis
    by blast
qed

section \<open>The high risk table\<close>

text \<open>
  C9. When the high-risk call resolves with an empty list, that empty list (not the demo
  list) becomes the view's data, and \<open>HighRiskTable\<close> given an empty list renders
  without throwing: the heading, a count of 0, the table head, no row, and the empty
  state titled "No High Risk Employees".
\<close>

theorem empty_high_risk_list_shows_empty_state:
  "highRiskEmployees (snd (fetchHighRiskEmployees (Resolved (JArr [])) (b, s))) = JArr [] \<and>
   HighRiskTable row (JArr []) =
     Inr [Heading ''High Risk Employees'', CountLabel 0,
          TableHead [''Employee'', ''Department'', ''Salary'', ''Risk Level'',
                     ''Probability'', ''Predicted''],
          EmptyState ''No High Risk Employees''
            ''Great news! All employees are currently in safe zones.'']"
  by (simp add: fetchHighRiskEmployees_def Let_def)

section \<open>Rounding to a double\<close>

lemma bits_le: "n < 2 ^ k \<Longrightarrow> bits n \<le> k"
proof (induction k arbitrary: n)
  case 0
  then show ?case by simp
next
  case (Suc k)
  have "n div 2 < 2 ^ k"
    using Suc.prems by simp
  then have "bits (n div 2) \<le> k"
    by (rule Suc.IH)
  then show ?case
    by (subst bits.simps) simp
qed

lemma rne_div_bounds:
  assumes "0 < d" "0 \<le> n"
  shows "0 \<le> rne_div n d" "rne_div n d \<le> n div d + 1"
proof -
  have "0 \<le> n div d"
    using assms by (simp add: pos_imp_zdiv_nonneg_iff)
  then show "0 \<le> rne_div n d" "rne_div n d \<le> n div d + 1"
    by (simp_all add: rne_div_def Let_def)
qed

lemma expo_le:
  assumes "0 < p" "0 < q" "of_int p / of_int q \<le> (100 :: rat)"
  shows "expo p q \<le> 6"
proof (cases "q \<le> p")
  case True
  have "of_int (p div q) \<le> (of_int p / of_int q :: rat)"
    using assms(2) by (metis floor_divide_of_int_eq of_int_floor_le)
  then have "of_int (p div q) \<le> (100 :: rat)"
    using assms(3) by linarith
  then have "p div q < 2 ^ 7"
    by simp
  then have "bits (p div q) \<le> 7"
    by (rule bits_le)
  with True show ?thesis
    by (simp add: expo_def)
next
  case False
  then show ?thesis
    by (simp add: expo_def)
qed

lemma fl_unfold:
  assumes "0 < x" "quotient_of x = (p, q)"
  shows "fl x = of_int (if 0 \<le> max (expo p q) (- 1022) - 52
                        then rne_div p (q * 2 ^ nat (max (expo p q) (- 1022) - 52))
                        else rne_div (p * 2 ^ nat (- (max (expo p q) (- 1022) - 52))) q)
                * pow2 (max (expo p q) (- 1022) - 52)"
proof -
  have "\<bar>x\<bar> = x" "x \<noteq> 0" "sgn x = 1"
    using assms(1) by simp_all
  then show ?thesis
    unfolding fl_def by (simp add: assms(2) Let_def)
qed

lemma div_le_quotient:
  assumes "0 < (q :: int)"
  shows "(of_int (n div q) :: rat) \<le> of_int n / of_int q"
proof -
  have "n div q = \<lfloor>(of_int n :: rat) / of_int q\<rfloor>"
    by (rule floor_divide_of_int_eq [symmetric])
  then show ?thesis
    by (simp only: of_int_floor_le)
qed

lemma fl_bounds:
  assumes "0 \<le> x" "x \<le> 100"
  shows "0 \<le> fl x \<and> fl x \<le> x + 1"
proof (cases "x = 0")
  case True
  then show ?thesis by (simp add: fl_def)
next
  case False
  with assms have pos: "0 < x" by simp
  obtain p q where pq: "quotient_of x = (p, q)"
    by (cases "quotient_of x")
  have q: "0 < q"
    using pq by (rule quotient_of_denom_pos)
  have x: "x = of_int p / of_int q"
    using pq by (rule quotient_of_div)
  have p: "0 < p"
    using pos q x by (simp add: zero_less_divide_iff)
  define e where "e = max (expo p q) (- 1022) - 52"
  define k where "k = nat (- e)"
  have "of_int p / of_int q \<le> (100 :: rat)"
    using assms(2) x by simp
  with p q have "expo p q \<le> 6"
    by (rule expo_le)
  then have e: "e < 0"
    by (simp add: e_def)
  then have pe: "pow2 e = 1 / 2 ^ k"
    by (simp add: pow2_def k_def)
  define m where "m = rne_div (p * 2 ^ k) q"
  have "fl x = of_int (if 0 \<le> e then rne_div p (q * 2 ^ nat e)
                        else rne_div (p * 2 ^ nat (- e)) q) * pow2 e"
    unfolding e_def using pos pq by (rule fl_unfold)
  with e have f: "fl x = of_int m / 2 ^ k"
    by (simp add: m_def k_def pe)
  have m0: "0 \<le> m" and m1: "m \<le> (p * 2 ^ k) div q + 1"
    using rne_div_bounds [of q "p * 2 ^ k"] p q by (simp_all add: m_def)
  have "(of_int ((p * 2 ^ k) div q) :: rat) \<le> of_int (p * 2 ^ k) / of_int q"
    using q by (rule div_le_quotient)
  also have "\<dots> = x * 2 ^ k"
    by (simp add: x)
  finally have d: "(of_int ((p * 2 ^ k) div q) :: rat) \<le> x * 2 ^ k" .
  have "(of_int m :: rat) \<le> of_int ((p * 2 ^ k) div q + 1)"
    using m1 by (simp only: of_int_le_iff)
  also have "\<dots> \<le> x * 2 ^ k + 1"
    using d by simp
  finally have "(of_int m :: rat) \<le> x * 2 ^ k + 1" .
  then have "of_int m / 2 ^ k \<le> (x * 2 ^ k + 1) / (2 ^ k :: rat)"
    by (simp add: divide_right_mono)
  also have "\<dots> = x + 1 / 2 ^ k"
    by (simp add: add_divide_distrib)
  also have "\<dots> \<le> x + 1"
    by (simp add: divide_le_eq_1)
  finally have "fl x \<le> x + 1"
    using f by simp
  moreover have "0 \<le> fl x"
    using f m0 by simp
  ultimately show ?thesis by simp
qed

section \<open>Percentages\<close>

lemma digits_nonempty: "digits n \<noteq> []"
  by (subst digits.simps) simp

lemma digits_0: "digits 0 = ''0''"
  by (simp add: digit_char_def)

lemma digits_point:
  "(let m = digits n;
        m' = (if length m \<le> 1 then replicate (2 - length m) (CHR ''0'') @ m else m);
        k = length m'
    in take (k - 1) m' @ ''.'' @ drop (k - 1) m')
   = digits (n div 10) @ ''.'' @ [digit_char (n mod 10)]"
proof (cases "n < 10")
  case True
  then have "digits n = [digit_char n]"
    by (subst digits.simps) simp
  with True show ?thesis
    by (simp add: Let_def digits_0 del: digits.simps)
next
  case False
  then have d: "digits n = digits (n div 10) @ [digit_char (n mod 10)]"
    by (subst digits.simps) simp
  have "digits (n div 10) \<noteq> []"
    by (rule digits_nonempty)
  moreover from this have "1 \<le> length (digits (n div 10))"
    by (cases "digits (n div 10)") simp_all
  ultimately show ?thesis
    using d by (simp add: Let_def del: digits.simps)
qed

lemma toFixed1_nonneg:
  assumes "0 \<le> x" "x < 10 ^ 21"
  shows "toFixed1 x = Some (digits (nat (round (x * 10)) div 10) @ ''.'' @
                            [digit_char (nat (round (x * 10)) mod 10)])"
proof -
  have "\<bar>x\<bar> = x" "\<not> x < 0" "\<not> 10 ^ 21 \<le> x"
    using assms by simp_all
  then show ?thesis
    unfolding toFixed1_def round_def
    using digits_point [of "nat \<lfloor>x * 10 + 1 / 2\<rfloor>"]
    by (simp add: Let_def del: digits.simps)
qed

lemma show_decimal1_round1:
  assumes "0 \<le> x"
  shows "show_decimal1 (round1 x) = digits (nat (round (x * 10)) div 10) @ ''.'' @
                            [digit_char (nat (round (x * 10)) mod 10)]"
proof -
  let ?N = "round (x * 10)"
  have N: "0 \<le> ?N"
    using assms by (simp add: round_def)
  have f1: "\<lfloor>(of_int ?N :: rat) / 10\<rfloor> = ?N div 10"
    using floor_divide_of_int_eq [of ?N 10, where ?'a = rat] by simp
  have f2: "\<lfloor>(of_int ?N :: rat) / 10 * 10\<rfloor> = ?N"
    by simp
  have n1: "nat (?N div 10) = nat ?N div 10"
    using N by (simp add: nat_div_distrib)
  have n2: "nat (?N mod 10) = nat ?N mod 10"
    using N by (simp add: nat_mod_distrib)
  show ?thesis
    unfolding show_decimal1_def round1_def f1 f2 n1 n2 ..
qed

lemma round1_nearest: "\<bar>round1 x - x\<bar> \<le> 1 / 20"
proof -
  have "\<bar>of_int (round (x * 10)) - x * 10\<bar> \<le> 1 / 2"
    by (rule of_int_round_abs_le)
  then show ?thesis
    unfolding round1_def by (simp add: field_simps abs_le_iff)
qed

lemma digit_value_digit_char: "d < 10 \<Longrightarrow> digit_value (digit_char d) = Some d"
  by (simp add: digit_value_def digit_char_def)

lemma numeral_value_snoc:
  "numeral_value acc (cs @ [c]) =
     (case numeral_value acc cs of
        None \<Rightarrow> None
      | Some a \<Rightarrow> (case digit_value c of None \<Rightarrow> None | Some d \<Rightarrow> Some (10 * a + d)))"
  by (induction cs arbitrary: acc) (simp_all split: option.splits)

lemma numeral_value_digits: "numeral_value 0 (digits n) = Some n"
proof (induction n rule: digits.induct)
  case (1 n)
  show ?case
  proof (cases "n < 10")
    case True
    then have "digits n = [digit_char n]"
      by (subst digits.simps) simp
    with True show ?thesis
      by (simp add: digit_value_digit_char del: digits.simps)
  next
    case False
    then have d: "digits n = digits (n div 10) @ [digit_char (n mod 10)]"
      by (subst digits.simps) simp
    have "numeral_value 0 (digits (n div 10)) = Some (n div 10)"
      using False by (rule "1.IH")
    then show ?thesis
      unfolding d numeral_value_snoc
      by (simp add: digit_value_digit_char del: digits.simps)
  qed
qed

lemma read_decimal1_point:
  assumes "d < 10"
  shows "read_decimal1 (digits a @ ''.'' @ [digit_char d]) = Some (of_nat a + of_nat d / 10)"
proof -
  let ?s = "digits a @ ''.'' @ [digit_char d]"
  have l: "length ?s = length (digits a) + 2"
    by simp
  have "?s ! (length ?s - 2) = CHR ''.''"
    unfolding l by (simp add: nth_append del: digits.simps)
  moreover have "take (length ?s - 2) ?s = digits a"
    unfolding l by (simp del: digits.simps)
  moreover have "last ?s = digit_char d"
    by (simp del: digits.simps)
  moreover have "\<not> length ?s < 3"
    using digits_nonempty [of a] unfolding l by (cases "digits a") simp_all
  ultimately show ?thesis
    unfolding read_decimal1_def
    by (simp only: numeral_value_digits digit_value_digit_char [OF assms]) simp
qed

lemma read_show_decimal1:
  assumes "0 \<le> x"
  shows "read_decimal1 (show_decimal1 (round1 x)) = Some (round1 x)"
proof -
  let ?n = "nat (round (x * 10))"
  have N: "0 \<le> round (x * 10)"
    using assms by (simp add: round_def)
  have "of_nat (?n div 10) + of_nat (?n mod 10) / (10 :: rat) = of_nat ?n / 10"
  proof -
    have "(of_nat ?n :: rat) = of_nat (10 * (?n div 10) + ?n mod 10)"
      by simp
    also have "\<dots> = 10 * of_nat (?n div 10) + of_nat (?n mod 10)"
      by (simp only: of_nat_add of_nat_mult of_nat_numeral)
    finally show ?thesis
      by simp
  qed
  also have "\<dots> = round1 x"
    using N by (simp add: round1_def)
  finally have v: "of_nat (?n div 10) + of_nat (?n mod 10) / (10 :: rat) = round1 x" .
  have "read_decimal1 (show_decimal1 (round1 x))
      = read_decimal1 (digits (?n div 10) @ ''.'' @ [digit_char (?n mod 10)])"
    by (simp only: show_decimal1_round1 [OF assms])
  also have "\<dots> = Some (of_nat (?n div 10) + of_nat (?n mod 10) / 10)"
    by (rule read_decimal1_point) simp
  also have "\<dots> = Some (round1 x)"
    by (simp only: v)
  finally show ?thesis .
qed

lemma percentage_range:
  assumes "0 \<le> v" "v \<le> 1"
  shows "0 \<le> fl (v * 100)" "fl (v * 100) < 10 ^ 21"
proof -
  have "0 \<le> v * 100" "v * 100 \<le> 100"
    using assms by simp_all
  then have "0 \<le> fl (v * 100) \<and> fl (v * 100) \<le> v * 100 + 1"
    by (rule fl_bounds)
  then show "0 \<le> fl (v * 100)" "fl (v * 100) < 10 ^ 21"
    using assms by simp_all
qed

lemma fl_0: "fl 0 = 0"
  by (simp add: fl_def)

text \<open>
  C8, as stated, fails when the product is taken exactly. For the double nearest 0.0015,
  a rate in \<open>[0, 1]\<close>, both views show \<open>0.1%\<close>: the double product is just below 0.15.
  The exact product is just above 0.15 and rounds to \<open>0.2\<close>.
\<close>

theorem exact_product_rounds_differently:
  "0 \<le> fl 0.0015 \<and> fl 0.0015 \<le> 1 \<and>
   Dashboard_turnover_rate (fl 0.0015) = Some ''0.1%'' \<and>
   AnalyticsDashboard_turnover_rate (fl 0.0015) = Some ''0.1%'' \<and>
   spec_formatPercentage (fl 0.0015) = ''0.2%''"
  by code_simp

text \<open>
  C8, amended. For a rate \<open>v\<close> in \<open>[0, 1]\<close>, the text shown by the Dashboard and by the
  Analytics dashboard is \<open>round(v * 100, 1)\<close> followed by the percent sign, where
  \<open>v * 100\<close> is the product of the two doubles (the exact product rounded to the nearest
  double) and the rounding to one decimal place takes the nearest tenth, a tie going up.
  Read back as a numeral, the text before the percent sign is that rounded value, which
  lies within one twentieth of the double product.
\<close>

theorem percentage_is_rounded_double_product:
  assumes "0 \<le> v" "v \<le> 1"
  shows "Dashboard_turnover_rate v = Some (double_formatPercentage v) \<and>
         AnalyticsDashboard_turnover_rate v = Some (double_formatPercentage v) \<and>
         (\<exists>m. double_formatPercentage v = m @ ''%'' \<and>
              read_decimal1 m = Some (round1 (fl (v * 100)))) \<and>
         \<bar>round1 (fl (v * 100)) - fl (v * 100)\<bar> \<le> 1 / 20"
proof -
  note r = percentage_range [OF assms]
  have t: "toFixed1 (fl (v * 100)) = Some (show_decimal1 (round1 (fl (v * 100))))"
    using toFixed1_nonneg [OF r] show_decimal1_round1 [OF r(1)] by simp
  have z: "show_decimal1 (round1 0) = ''0.0''"
    by (simp add: show_decimal1_def round1_def digit_char_def)
  have "Dashboard_turnover_rate v = Some (double_formatPercentage v)"
    using t by (simp add: Dashboard_turnover_rate_def double_formatPercentage_def)
  moreover have "AnalyticsDashboard_turnover_rate v = Some (double_formatPercentage v)"
  proof (cases "v = 0")
    case True
    then show ?thesis
      using z by (simp add: AnalyticsDashboard_turnover_rate_def double_formatPercentage_def fl_0)
  next
    case False
    then show ?thesis
      using t by (simp add: AnalyticsDashboard_turnover_rate_def double_formatPercentage_def)
  qed
  moreover have "\<exists>m. double_formatPercentage v = m @ ''%'' \<and>
              read_decimal1 m = Some (round1 (fl (v * 100)))"
    using read_show_decimal1 [OF r(1)] by (simp add: double_formatPercentage_def)
  moreover have "\<bar>round1 (fl (v * 100)) - fl (v * 100)\<bar> \<le> 1 / 20"
    by (rule round1_nearest)
  ultimately show ?thesis
    by blast
qed

text \<open>The double nearest 0.238 is shown as \<open>23.8%\<close> by both views.\<close>

theorem percentage_is_rounded_double_product_witness:
  "0 \<le> fl 0.238 \<and> fl 0.238 \<le> 1 \<and>
   Dashboard_turnover_rate (fl 0.238) = Some ''23.8%'' \<and>
   AnalyticsDashboard_turnover_rate (fl 0.238) = Some ''23.8%'' \<and>
   read_decimal1 ''23.8'' = Some (round1 (fl (fl 0.238 * 100)))"
proof -
  have h: "0 \<le> fl 0.238" "fl 0.238 \<le> 1"
    by code_simp+
  have s: "double_formatPercentage (fl 0.238) = ''23.8%''"
    by code_simp
  have r: "read_decimal1 ''23.8'' = Some (round1 (fl (fl 0.238 * 100)))"
    by code_simp
  from percentage_is_rounded_double_product [OF h] s h r show ?thesis
    by simp
qed

text \<open>More values, among them the tie 0.25, which goes up.\<close>

lemma percentage_examples:
  "Dashboard_turnover_rate (fl 0.0075) = Some ''0.8%''"
  "AnalyticsDashboard_turnover_rate (fl 0.0045) = Some ''0.4%''"
  "Dashboard_turnover_rate (fl 0.0025) = Some ''0.3%''"
  "Dashboard_turnover_rate 1 = Some ''100.0%''"
  "AnalyticsDashboard_turnover_rate 0 = Some ''0.0%''"
  by code_simp+

text \<open>Doubles and double products at some decimals, and the double of a third.\<close>

lemma fl_examples:
  "fl 0.0015 = 3458764513820541 / 2 ^ 61"
  "fl (fl 0.0015 * 100) = 5404319552844595 / 2 ^ 55"
  "fl (fl 0.238 * 100) = 1674776111428403 / 2 ^ 46"
  "fl (fl 0.95 * 100) = 95"
  "fl (1 / 3) = 6004799503160661 / 2 ^ 54"
  by code_simp+

text \<open>The doubles that the thresholds of \<open>riskZone\<close> denote.\<close>

lemma double_literals:
  "fl 0.2 = 3602879701896397 / 2 ^ 54"
  "fl 0.6 = 5404319552844595 / 2 ^ 53"
  "fl 0.9 = 8106479329266893 / 2 ^ 53"
  by code_simp+

section \<open>The demo prediction\<close>

lemma riskZone_low: "riskZone p = ''low'' \<longleftrightarrow> p < fl 0.2"
  by (simp add: riskZone_def)

lemma riskZone_medium: "riskZone p = ''medium'' \<longleftrightarrow> fl 0.2 \<le> p \<and> p < fl 0.6"
  by (auto simp: riskZone_def)

lemma thresholds_ordered: "fl 0.2 < fl 0.6" "fl 0.6 < fl 0.9"
  by code_simp+

lemma riskZone_high: "riskZone p = ''high'' \<longleftrightarrow> fl 0.6 \<le> p \<and> p < fl 0.9"
  using thresholds_ordered by (auto simp: riskZone_def)

lemma riskZone_critical: "riskZone p = ''critical'' \<longleftrightarrow> fl 0.9 \<le> p"
  using thresholds_ordered by (auto simp: riskZone_def)

lemma riskZone_cases:
  "riskZone p = ''low'' \<or> riskZone p = ''medium'' \<or> riskZone p = ''high'' \<or> riskZone p = ''critical''"
  by (simp add: riskZone_def)

lemma demo_zone_badge:
  "getShortRiskZone ''low'' = ''UNKNOWN''" "getShortRiskZone ''medium'' = ''UNKNOWN''"
  "getShortRiskZone ''high'' = ''UNKNOWN''" "getShortRiskZone ''critical'' = ''UNKNOWN''"
  "getRiskColor ''low'' = ''bg-gray-100 text-gray-800''"
  "getRiskColor ''medium'' = ''bg-gray-100 text-gray-800''"
  "getRiskColor ''high'' = ''bg-gray-100 text-gray-800''"
  "getRiskColor ''critical'' = ''bg-gray-100 text-gray-800''"
  by (simp_all add: getShortRiskZone_def getRiskColor_def)

text \<open>The labels of the API, as in the demo prediction history, do get a badge.\<close>

lemma api_zone_badge:
  "getShortRiskZone ''High Risk Zone (Red)'' = ''HIGH''"
  "getShortRiskZone ''Medium Risk Zone (Orange)'' = ''MEDIUM''"
  by (simp_all add: getShortRiskZone_def)

text \<open>
  C10 fails on what is displayed. When the predict call is rejected, the stored demo
  result is consistent: its \<open>turnover_probability\<close> is the random number drawn and its
  \<open>risk_zone\<close> is \<open>low\<close> exactly below 0.2, \<open>medium\<close> exactly from 0.2 to below 0.6,
  \<open>high\<close> exactly from 0.6 to below 0.9 and \<open>critical\<close> exactly from 0.9 on (the
  thresholds being the doubles of these literals). But the badge of the result card,
  which \<open>getShortRiskZone\<close> computes, reads \<open>UNKNOWN RISK ZONE\<close> in grey for every one
  of these zones. With 0.95 drawn, the card shows \<open>UNKNOWN RISK ZONE\<close> beside \<open>95.0%\<close>
  and the assessment for a critical risk.
\<close>

theorem demo_prediction_badge_reads_unknown:
  "(\<exists>zone. get_prop (predictionResult (snd (predictTurnover p now created (Rejected e) (b, s))))
               ''turnover_probability'' = Inr (JNum p) \<and>
            get_prop (predictionResult (snd (predictTurnover p now created (Rejected e) (b, s))))
               ''risk_zone'' = Inr (JStr zone) \<and>
            (zone = ''low'' \<longleftrightarrow> p < fl 0.2) \<and>
            (zone = ''medium'' \<longleftrightarrow> fl 0.2 \<le> p \<and> p < fl 0.6) \<and>
            (zone = ''high'' \<longleftrightarrow> fl 0.6 \<le> p \<and> p < fl 0.9) \<and>
            (zone = ''critical'' \<longleftrightarrow> fl 0.9 \<le> p) \<and>
            badge (prediction_result_card zone p) = ''UNKNOWN RISK ZONE'' \<and>
            badge_colour (prediction_result_card zone p) = ''bg-gray-100 text-gray-800'') \<and>
   prediction_result_card (riskZone (fl 0.95)) (fl 0.95) =
     \<lparr>badge = ''UNKNOWN RISK ZONE'',
      badge_colour = ''bg-gray-100 text-gray-800'',
      probability = Some ''95.0%'',
      assessment =
        [''This employee has a critical risk of leaving. Urgent intervention required.'']\<rparr>"
proof -
  have 1: "get_prop (predictionResult (snd (predictTurnover p now created (Rejected e) (b, s))))
          ''turnover_probability'' = Inr (JNum p)"
    by (simp add: predictTurnover_def Let_def del: digits.simps)
  have 2: "get_prop (predictionResult (snd (predictTurnover p now created (Rejected e) (b, s))))
          ''risk_zone'' = Inr (JStr (riskZone p))"
    by (simp add: predictTurnover_def Let_def del: digits.simps)
  have 3: "badge (prediction_result_card (riskZone p) p) = ''UNKNOWN RISK ZONE'' \<and>
      badge_colour (prediction_result_card (riskZone p) p) = ''bg-gray-100 text-gray-800''"
    using riskZone_cases [of p] by (auto simp: prediction_result_card_def demo_zone_badge)
  have z: "riskZone (fl 0.95) = ''critical''"
    by code_simp
  have t: "toFixed1 (fl (fl 0.95 * 100)) = Some ''95.0''"
    by code_simp
  have 4: "prediction_result_card (riskZone (fl 0.95)) (fl 0.95) =
     \<lparr>badge = ''UNKNOWN RISK ZONE'',
      badge_colour = ''bg-gray-100 text-gray-800'',
      probability = Some ''95.0%'',
      assessment =
        [''This employee has a critical risk of leaving. Urgent intervention required.'']\<rparr>"
    unfolding z using t by (simp add: prediction_result_card_def demo_zone_badge)
  show ?thesis
    using 1 2 3 4
      riskZone_low [of p] riskZone_medium [of p] riskZone_high [of p] riskZone_critical [of p]
    by blast
qed

end
